theory Spec2Isabelle
  imports Complex_Main "HOL-Library.Word" "HOL-Library.Log_Nat" "HOL-Library.Multiset"
begin

section \<open>Data model (internal/models/transaction.go)\<close>

text \<open>
  A \<open>time.Time\<close> is an instant, kept as the number of nanoseconds since Go's zero time
  (January 1, year 1, 00:00:00 UTC); the zero value of the type is 0. Go has no leap
  seconds, so the UTC midnights are exactly the multiples of 24 hours.
  An amount is a finite \<open>float64\<close>, kept as the rational number it denotes; the
  aggregates over amounts are \<open>float64\<close> values, computed in \<open>float64\<close> arithmetic.
  Go's \<open>uint\<close> identifiers are natural numbers, Go's \<open>int\<close> (page, limit, offset) is a
  64-bit word read with \<open>sint\<close>.
\<close>

type_synonym time = int
type_synonym TransactionStatus = string
type_synonym go_int = "64 word"

text \<open>
  A \<open>float64\<close> value: a finite number, an infinity or NaN (signed zeros are one zero).
  \<open>round64\<close> is the rounding of IEEE 754 binary64 arithmetic, to nearest with ties to
  the even significand: the exponent \<open>e\<close> of the number's binade, not below that of the
  subnormals, the unit in the last place \<open>2^(e - 52)\<close>, the nearest multiple of it, and
  an infinity when that is \<open>2^1024\<close> or more. Every sum and quotient is the rounded
  exact one.
\<close>

datatype float64 = Finite rat | PosInf | NegInf | NaN

definition round_half_even :: "rat \<Rightarrow> int" where
  "round_half_even q =
     (let f = \<lfloor>q\<rfloor>; r = q - of_int f
      in if r < 1 / 2 then f
         else if 1 / 2 < r then f + 1
         else if even f then f else f + 1)"

text \<open>The floor of the binary logarithm of a positive rational.\<close>

definition ilog2 :: "rat \<Rightarrow> int" where
  "ilog2 a =
     (if 1 \<le> a then int (floorlog 2 (nat \<lfloor>a\<rfloor>)) - 1
      else - int (floorlog 2 (nat \<lceil>1 / a\<rceil> - 1)))"

definition round64 :: "rat \<Rightarrow> float64" where
  "round64 x =
     (if x = 0 then Finite 0
      else
        let e = max (- 1022) (ilog2 \<bar>x\<bar>);
            ulp = 2 powi (e - 52);
            n = round_half_even (\<bar>x\<bar> / ulp)
        in if 1023 < e \<or> (e = 1023 \<and> n = 2 ^ 53) then (if 0 < x then PosInf else NegInf)
           else Finite (sgn x * of_int n * ulp))"

fun float64_add :: "float64 \<Rightarrow> float64 \<Rightarrow> float64" where
  "float64_add (Finite a) (Finite b) = round64 (a + b)"
| "float64_add NaN _ = NaN"
| "float64_add _ NaN = NaN"
| "float64_add PosInf NegInf = NaN"
| "float64_add NegInf PosInf = NaN"
| "float64_add PosInf _ = PosInf"
| "float64_add _ PosInf = PosInf"
| "float64_add NegInf _ = NegInf"
| "float64_add _ NegInf = NegInf"

text \<open>Division of a \<open>float64\<close> by a positive count.\<close>

fun float64_div_count :: "float64 \<Rightarrow> nat \<Rightarrow> float64" where
  "float64_div_count (Finite a) n = round64 (a / of_nat n)"
| "float64_div_count v n = v"

definition StatusPending :: TransactionStatus where
  "StatusPending = ''pending''"

definition StatusSuccess :: TransactionStatus where
  "StatusSuccess = ''success''"

definition StatusFailed :: TransactionStatus where
  "StatusFailed = ''failed''"

record Transaction =
  ID :: nat
  UserID :: nat
  Amount :: rat
  Status :: TransactionStatus
  CreatedAt :: time
  UpdatedAt :: time
  DeletedAt :: "time option"

text \<open>Request payloads; the field prefixes keep the records' selectors apart.\<close>

record TransactionRequest =
  req_UserID :: nat
  req_Amount :: rat

record TransactionUpdateRequest =
  upd_Status :: TransactionStatus

record TransactionQuery =
  q_UserID :: nat
  q_Status :: TransactionStatus
  q_Limit :: go_int
  q_Offset :: go_int
  q_Page :: go_int

record TransactionResponse =
  Data :: "Transaction list"
  Total :: nat
  Page :: go_int
  Limit :: go_int
  TotalPages :: int

record DashboardSummary =
  TotalSuccessToday :: nat
  AverageAmountPerUser :: float64
  TotalTransactions :: nat
  RecentTransactions :: "Transaction list"
  TotalAmount :: float64
  TotalAmountToday :: float64
  StatusDistribution :: "string \<rightharpoonup> nat"

section \<open>Time (Go standard library)\<close>

definition Hour :: int where
  "Hour = 3600 * 1000000000"

text \<open>\<open>t.Truncate(d)\<close>: round down to a multiple of \<open>d\<close> since the zero time; unchanged for \<open>d <= 0\<close>.\<close>

definition Truncate :: "time \<Rightarrow> int \<Rightarrow> time" where
  "Truncate t d = (if d \<le> 0 then t else t - t mod d)"

section \<open>The transaction store\<close>

text \<open>
  The persistence layer is the GORM library over a relational engine; neither is part of
  the repository, and the definitions of this section state how the service's calls of
  the library behave on a model that has a \<open>gorm.DeletedAt\<close> field, as the library
  documents it, as the service's tests use it and as the specification describes its
  store. The store is a table of rows in insertion order, the auto-increment counter of
  the primary key, and whether the connection answers. Every primitive fails with a
  driver error when the connection is down. Requests are served one at a time.
\<close>

datatype db_error = ErrRecordNotFound | ErrDriver string

fun err_text :: "db_error \<Rightarrow> string" where
  "err_text ErrRecordNotFound = ''record not found''"
| "err_text (ErrDriver m) = m"

definition ErrConn :: db_error where
  "ErrConn = ErrDriver ''invalid connection''"

record DB =
  table :: "Transaction list"
  auto_increment :: nat
  conn_up :: bool

text \<open>The conditions the service writes in its \<open>Where\<close> clauses.\<close>

datatype cond = UserIdEq nat | StatusEq TransactionStatus | CreatedAtGe time | CreatedAtLt time

fun holds :: "cond \<Rightarrow> Transaction \<Rightarrow> bool" where
  "holds (UserIdEq u) t = (UserID t = u)"
| "holds (StatusEq s) t = (Status t = s)"
| "holds (CreatedAtGe a) t = (a \<le> CreatedAt t)"
| "holds (CreatedAtLt b) t = (CreatedAt t < b)"

text \<open>
  The default query scope of a model with a deletion marker adds \<open>deleted_at IS NULL\<close>
  to the conditions given (the specification: ``deleted rows excluded from normal reads'').
\<close>

definition scope :: "cond list \<Rightarrow> DB \<Rightarrow> Transaction list" where
  "scope cs db = filter (\<lambda>t. DeletedAt t = None \<and> list_all (\<lambda>c. holds c t) cs) (table db)"

text \<open>
  \<open>db.Create(t)\<close> inserts one row (the specification: ``assigns id, timestamps, default
  status''). The key comes from the counter when the record carries none (a key that is
  already taken is refused), a zero timestamp is replaced by the store's clock, and an
  empty status by the column's default.
\<close>

definition gorm_Create :: "Transaction \<Rightarrow> time \<Rightarrow> DB \<Rightarrow> (db_error + Transaction) \<times> DB" where
  "gorm_Create t now db =
     (if \<not> conn_up db then (Inl ErrConn, db)
      else if ID t \<noteq> 0 \<and> ID t \<in> set (map ID (table db))
        then (Inl (ErrDriver ''Duplicate entry for key PRIMARY''), db)
      else
        let t' = t\<lparr>ID := (if ID t = 0 then auto_increment db else ID t),
                   Status := (if Status t = [] then StatusPending else Status t),
                   CreatedAt := (if CreatedAt t = 0 then now else CreatedAt t),
                   UpdatedAt := (if UpdatedAt t = 0 then now else UpdatedAt t)\<rparr>
        in (Inr t', db\<lparr>table := table db @ [t'],
                       auto_increment := max (auto_increment db) (ID t') + 1\<rparr>))"

text \<open>
  \<open>db.First(&t, id)\<close> reads the first row of the default scope with that key and fails
  with \<open>ErrRecordNotFound\<close> when there is none (the specification: ``fetch one row by id
  excluding soft-deleted (fails with NotFound if absent or deleted)'').
\<close>

definition gorm_First :: "nat \<Rightarrow> DB \<Rightarrow> db_error + Transaction" where
  "gorm_First i db =
     (if \<not> conn_up db then Inl ErrConn
      else case filter (\<lambda>t. ID t = i) (scope [] db) of
             [] \<Rightarrow> Inl ErrRecordNotFound
           | t # _ \<Rightarrow> Inr t)"

text \<open>
  \<open>db.Unscoped().First(&t, id)\<close>, the query the service's delete test uses to find the
  row it has deleted: the same read without the condition on the deletion marker (the
  specification's ``include deleted'' query mode).
\<close>

definition gorm_Unscoped_First :: "nat \<Rightarrow> DB \<Rightarrow> db_error + Transaction" where
  "gorm_Unscoped_First i db =
     (if \<not> conn_up db then Inl ErrConn
      else case filter (\<lambda>t. ID t = i) (table db) of
             [] \<Rightarrow> Inl ErrRecordNotFound
           | t # _ \<Rightarrow> Inr t)"

text \<open>
  \<open>db.Save(&t)\<close> of a record that has a key writes every column of the record over the
  live row with that key and stamps \<open>updated_at\<close> with the store's clock, also in the
  caller's record (the specification: ``update a row's mutable fields and bump
  updated_at'').
\<close>

definition gorm_Save :: "Transaction \<Rightarrow> time \<Rightarrow> DB \<Rightarrow> (db_error + Transaction) \<times> DB" where
  "gorm_Save t now db =
     (if \<not> conn_up db then (Inl ErrConn, db)
      else
        let t' = t\<lparr>UpdatedAt := now\<rparr>
        in (Inr t', db\<lparr>table := map (\<lambda>r. if ID r = ID t \<and> DeletedAt r = None then t' else r)
                                      (table db)\<rparr>))"

text \<open>
  \<open>db.Delete(&t)\<close> on a model with a deletion marker is an update: it sets the marker
  of the live row with the record's key to the store's clock, and the row stays in the
  table (the specification: ``soft-delete by id'').
\<close>

definition gorm_Delete :: "Transaction \<Rightarrow> time \<Rightarrow> DB \<Rightarrow> db_error option \<times> DB" where
  "gorm_Delete t now db =
     (if \<not> conn_up db then (Some ErrConn, db)
      else (None, db\<lparr>table := map (\<lambda>r. if ID r = ID t \<and> DeletedAt r = None
                                        then r\<lparr>DeletedAt := Some now\<rparr> else r)
                                  (table db)\<rparr>))"

text \<open>\<open>Count\<close>: the number of rows of the scope.\<close>

definition gorm_Count :: "cond list \<Rightarrow> DB \<Rightarrow> db_error + nat" where
  "gorm_Count cs db = (if \<not> conn_up db then Inl ErrConn else Inr (length (scope cs db)))"

text \<open>
  \<open>Offset(off).Limit(n).Order("created_at DESC").Find(&ts)\<close>: the rows of the scope in
  descending order of \<open>created_at\<close>, the first \<open>off\<close> skipped and at most \<open>n\<close>
  kept. The source gives no second sort key, so the engine is free in the order of rows
  with equal \<open>created_at\<close>; the model keeps such rows in the order of the table, and
  what is stated of a page below holds for every order the engine may choose. The library
  sends no offset that is not positive and no limit that is negative.
\<close>

definition order_created_at_desc :: "Transaction list \<Rightarrow> Transaction list" where
  "order_created_at_desc ts = sort_key (\<lambda>t. - CreatedAt t) ts"

definition gorm_Find :: "cond list \<Rightarrow> int \<Rightarrow> int \<Rightarrow> DB \<Rightarrow> db_error + Transaction list" where
  "gorm_Find cs off n db =
     (if \<not> conn_up db then Inl ErrConn
      else
        let ordered = order_created_at_desc (scope cs db);
            skipped = (if 0 < off then drop (nat off) ordered else ordered)
        in Inr (if 0 \<le> n then take (nat n) skipped else skipped))"

text \<open>
  The SQL aggregates \<open>SUM(amount)\<close> and \<open>AVG(amount)\<close> over the rows of a scope; over
  no rows both are NULL (\<open>None\<close>). The column is a double: the engine reads each amount
  as a \<open>float64\<close> and adds them up one by one in \<open>float64\<close> arithmetic, from zero,
  in the order of the table; the average is that sum divided by the number of rows.
\<close>

definition float64_sum :: "rat list \<Rightarrow> float64" where
  "float64_sum xs = foldl float64_add (Finite 0) (map round64 xs)"

fun sql_SUM :: "rat list \<Rightarrow> float64 option" where
  "sql_SUM [] = None"
| "sql_SUM (x # xs) = Some (float64_sum (x # xs))"

fun sql_AVG :: "rat list \<Rightarrow> float64 option" where
  "sql_AVG [] = None"
| "sql_AVG (x # xs) = Some (float64_div_count (float64_sum (x # xs)) (length (x # xs)))"

text \<open>
  \<open>Scan\<close> of a NULL column into a \<open>float64\<close> field of the result struct leaves the
  field at its zero value and is no error (the specification: the sums are ``0 if none'').
\<close>

fun scan_float64 :: "float64 option \<Rightarrow> float64" where
  "scan_float64 None = Finite 0"
| "scan_float64 (Some x) = x"

definition gorm_Scan_SUM_amount :: "cond list \<Rightarrow> DB \<Rightarrow> db_error + float64" where
  "gorm_Scan_SUM_amount cs db =
     (if \<not> conn_up db then Inl ErrConn
      else Inr (scan_float64 (sql_SUM (map Amount (scope cs db)))))"

definition gorm_Scan_AVG_amount :: "cond list \<Rightarrow> DB \<Rightarrow> db_error + float64" where
  "gorm_Scan_AVG_amount cs db =
     (if \<not> conn_up db then Inl ErrConn
      else Inr (scan_float64 (sql_AVG (map Amount (scope cs db)))))"

text \<open>The count of the rows of the scope grouped by status: one result row per status present.\<close>

definition gorm_Scan_status_count :: "DB \<Rightarrow> db_error + (string \<times> nat) list" where
  "gorm_Scan_status_count db =
     (if \<not> conn_up db then Inl ErrConn
      else Inr (map (\<lambda>s. (s, length (filter (\<lambda>t. Status t = s) (scope [] db))))
                    (remdups (map Status (scope [] db)))))"

text \<open>\<open>Database.Ping\<close> (unnamed/part_002): asks the connection.\<close>

definition Ping :: "DB \<Rightarrow> db_error option" where
  "Ping db = (if conn_up db then None else Some ErrConn)"

section \<open>Service (unnamed/part_004)\<close>

text \<open>
  A Go \<open>error\<close> is kept as its message, the string \<open>err.Error()\<close> that the handlers
  compare. \<open>time.Now()\<close> is the argument \<open>now\<close>. Logging is left out.
\<close>

definition TransactionService_CreateTransaction ::
    "TransactionRequest \<Rightarrow> time \<Rightarrow> DB \<Rightarrow> (string + Transaction) \<times> DB" where
  "TransactionService_CreateTransaction req now db =
     (let transaction = \<lparr>ID = 0, UserID = req_UserID req, Amount = req_Amount req,
                         Status = StatusPending, CreatedAt = 0, UpdatedAt = 0,
                         DeletedAt = None\<rparr>
      in case gorm_Create transaction now db of
           (Inl e, db') \<Rightarrow> (Inl (''failed to create transaction: '' @ err_text e), db')
         | (Inr t, db') \<Rightarrow> (Inr t, db'))"

definition TransactionService_GetTransactionByID :: "nat \<Rightarrow> DB \<Rightarrow> string + Transaction" where
  "TransactionService_GetTransactionByID i db =
     (case gorm_First i db of
        Inl e \<Rightarrow> (if e = ErrRecordNotFound then Inl ''transaction not found''
                  else Inl (''failed to get transaction: '' @ err_text e))
      | Inr t \<Rightarrow> Inr t)"

definition TransactionService_GetTransactions ::
    "TransactionQuery \<Rightarrow> DB \<Rightarrow> string + TransactionResponse" where
  "TransactionService_GetTransactions query db =
     (let cs = (if q_UserID query \<noteq> 0 then [UserIdEq (q_UserID query)] else []) @
               (if q_Status query \<noteq> [] then [StatusEq (q_Status query)] else [])
      in case gorm_Count cs db of
           Inl e \<Rightarrow> Inl (''failed to count transactions: '' @ err_text e)
         | Inr cnt \<Rightarrow>
             let limit = (if sint (q_Limit query) \<le> 0 then 10 else q_Limit query);
                 page = (if sint (q_Page query) \<le> 0 then 1 else q_Page query);
                 offset = (page - 1) * limit
             in (case gorm_Find cs (sint offset) (sint limit) db of
                   Inl e \<Rightarrow> Inl (''failed to get transactions: '' @ err_text e)
                 | Inr transactions \<Rightarrow>
                     Inr \<lparr>Data = transactions, Total = cnt, Page = page, Limit = limit,
                          TotalPages = \<lceil>(of_nat cnt :: rat) / of_int (sint limit)\<rceil>\<rparr>))"

definition TransactionService_UpdateTransaction ::
    "nat \<Rightarrow> TransactionUpdateRequest \<Rightarrow> time \<Rightarrow> DB \<Rightarrow> (string + Transaction) \<times> DB" where
  "TransactionService_UpdateTransaction i req now db =
     (case gorm_First i db of
        Inl e \<Rightarrow> (if e = ErrRecordNotFound then (Inl ''transaction not found'', db)
                  else (Inl (''failed to get transaction: '' @ err_text e), db))
      | Inr transaction \<Rightarrow>
          (case gorm_Save (transaction\<lparr>Status := upd_Status req\<rparr>) now db of
             (Inl e, db') \<Rightarrow> (Inl (''failed to update transaction: '' @ err_text e), db')
           | (Inr t, db') \<Rightarrow> (Inr t, db')))"

definition TransactionService_DeleteTransaction ::
    "nat \<Rightarrow> time \<Rightarrow> DB \<Rightarrow> string option \<times> DB" where
  "TransactionService_DeleteTransaction i now db =
     (case gorm_First i db of
        Inl e \<Rightarrow> (if e = ErrRecordNotFound then (Some ''transaction not found'', db)
                  else (Some (''failed to get transaction: '' @ err_text e), db))
      | Inr transaction \<Rightarrow>
          (case gorm_Delete transaction now db of
             (Some e, db') \<Rightarrow> (Some (''failed to delete transaction: '' @ err_text e), db')
           | (None, db') \<Rightarrow> (None, db')))"

text \<open>The loop that copies the grouped counts into the response's map.\<close>

fun fill_distribution :: "(string \<rightharpoonup> nat) \<Rightarrow> (string \<times> nat) list \<Rightarrow> (string \<rightharpoonup> nat)" where
  "fill_distribution m [] = m"
| "fill_distribution m ((s, c) # rs) = fill_distribution (m(s \<mapsto> c)) rs"

definition TransactionService_GetDashboardSummary :: "time \<Rightarrow> DB \<Rightarrow> string + DashboardSummary" where
  "TransactionService_GetDashboardSummary now db =
     (let today = Truncate now (24 * Hour);
          tomorrow = today + 24 * Hour
      in
      case gorm_Count [StatusEq StatusSuccess, CreatedAtGe today, CreatedAtLt tomorrow] db of
        Inl e \<Rightarrow> Inl (''failed to count today's successful transactions: '' @ err_text e)
      | Inr totalSuccessToday \<Rightarrow>
     (case gorm_Count [] db of
        Inl e \<Rightarrow> Inl (''failed to count total transactions: '' @ err_text e)
      | Inr totalTransactions \<Rightarrow>
     (case gorm_Scan_AVG_amount [StatusEq StatusSuccess] db of
        Inl e \<Rightarrow> Inl (''failed to calculate average amount: '' @ err_text e)
      | Inr avgAmount \<Rightarrow>
     (case gorm_Scan_SUM_amount [StatusEq StatusSuccess] db of
        Inl e \<Rightarrow> Inl (''failed to calculate total amount: '' @ err_text e)
      | Inr totalAmount \<Rightarrow>
     (case gorm_Scan_SUM_amount
             [StatusEq StatusSuccess, CreatedAtGe today, CreatedAtLt tomorrow] db of
        Inl e \<Rightarrow> Inl (''failed to calculate today's total amount: '' @ err_text e)
      | Inr totalAmountToday \<Rightarrow>
     (case gorm_Scan_status_count db of
        Inl e \<Rightarrow> Inl (''failed to get status distribution: '' @ err_text e)
      | Inr statusResults \<Rightarrow>
     (case gorm_Find [] 0 10 db of
        Inl e \<Rightarrow> Inl (''failed to get recent transactions: '' @ err_text e)
      | Inr recentTransactions \<Rightarrow>
          Inr \<lparr>TotalSuccessToday = totalSuccessToday,
               AverageAmountPerUser = avgAmount,
               TotalTransactions = totalTransactions,
               RecentTransactions = recentTransactions,
               TotalAmount = totalAmount,
               TotalAmountToday = totalAmountToday,
               StatusDistribution = fill_distribution Map.empty statusResults\<rparr>)))))))"

section \<open>Parsing and validation (Go standard library and the validator library)\<close>

text \<open>
  \<open>strconv.ParseUint(s, base, bitSize)\<close> for a base between 2 and 36, the only case the
  handlers use: no sign, no underscore, every byte a digit of the base, and the value
  within \<open>bitSize\<close> bits. The accumulator is a \<open>uint64\<close>; its wrap-around is written out.
\<close>

datatype NumError = ErrSyntax | ErrRange | ErrBase | ErrBitSize

definition digit_of :: "char \<Rightarrow> nat option" where
  "digit_of c =
     (let b = (of_char c :: nat)
      in if 48 \<le> b \<and> b \<le> 57 then Some (b - 48)
         else if 97 \<le> b \<and> b \<le> 122 then Some (b - 97 + 10)
         else if 65 \<le> b \<and> b \<le> 90 then Some (b - 65 + 10)
         else None)"

fun ParseUint_loop :: "nat \<Rightarrow> nat \<Rightarrow> nat \<Rightarrow> nat \<Rightarrow> string \<Rightarrow> NumError + nat" where
  "ParseUint_loop base cutoff maxVal n [] = Inr n"
| "ParseUint_loop base cutoff maxVal n (c # cs) =
     (case digit_of c of
        None \<Rightarrow> Inl ErrSyntax
      | Some d \<Rightarrow>
          if base \<le> d then Inl ErrSyntax
          else if cutoff \<le> n then Inl ErrRange
          else
            let m = n * base;
                n1 = (m + d) mod 2 ^ 64
            in if n1 < m \<or> maxVal < n1 then Inl ErrRange
               else ParseUint_loop base cutoff maxVal n1 cs)"

definition ParseUint :: "string \<Rightarrow> nat \<Rightarrow> nat \<Rightarrow> NumError + nat" where
  "ParseUint s base bitSize =
     (if s = [] then Inl ErrSyntax
      else if \<not> (2 \<le> base \<and> base \<le> 36) then Inl ErrBase
      else if 64 < bitSize then Inl ErrBitSize
      else
        let bits = (if bitSize = 0 then 64 else bitSize);
            cutoff = (2 ^ 64 - 1) div base + 1;
            maxVal = 2 ^ bits - 1
        in ParseUint_loop base cutoff maxVal 0 s)"

text \<open>
  \<open>validator.Struct\<close> on the two request types, by their \<open>validate\<close> tags:
  \<open>required\<close> refuses the zero value, \<open>gt=0\<close> a number that is not positive, and
  \<open>oneof=pending success failed\<close> a string that is none of the three, compared byte by
  byte. The result is the error's message, if any; the model names the field and the tag.
\<close>

definition validate_TransactionRequest :: "TransactionRequest \<Rightarrow> string option" where
  "validate_TransactionRequest req =
     (if req_UserID req = 0 then Some ''UserID: required''
      else if req_Amount req = 0 then Some ''Amount: required''
      else if \<not> 0 < req_Amount req then Some ''Amount: gt''
      else None)"

definition validate_TransactionUpdateRequest :: "TransactionUpdateRequest \<Rightarrow> string option" where
  "validate_TransactionUpdateRequest req =
     (if upd_Status req = [] then Some ''Status: required''
      else if upd_Status req \<notin> set [''pending'', ''success'', ''failed'']
        then Some ''Status: oneof''
      else None)"

section \<open>Error responses (internal/middleware/error_handler.go)\<close>

record ErrorResponse =
  Error :: string
  Message :: string
  Details :: string

datatype body =
    JSON_Transaction Transaction
  | JSON_TransactionResponse TransactionResponse
  | JSON_DashboardSummary DashboardSummary
  | JSON_ErrorResponse ErrorResponse
  | JSON_Health string string time
  | NoBody

type_synonym response = "nat \<times> body"

definition SendError :: "nat \<Rightarrow> string \<Rightarrow> string \<Rightarrow> response" where
  "SendError statusCode err message =
     (statusCode, JSON_ErrorResponse \<lparr>Error = err, Message = message, Details = []\<rparr>)"

definition SendValidationError :: "string \<Rightarrow> response" where
  "SendValidationError details =
     (400, JSON_ErrorResponse \<lparr>Error = ''validation_error'',
                               Message = ''Request validation failed'',
                               Details = details\<rparr>)"

section \<open>Handlers (unnamed/part_003)\<close>

text \<open>
  A handler takes what gin hands it: the path parameter as a string, and the result of
  binding the body or the query string to the request type (\<open>Inl\<close> the binding error's
  message). It returns the response and the store.
\<close>

definition TransactionHandler_CreateTransaction ::
    "string + TransactionRequest \<Rightarrow> time \<Rightarrow> DB \<Rightarrow> response \<times> DB" where
  "TransactionHandler_CreateTransaction bound now db =
     (case bound of
        Inl err \<Rightarrow> (SendValidationError err, db)
      | Inr req \<Rightarrow>
          (case validate_TransactionRequest req of
             Some err \<Rightarrow> (SendValidationError err, db)
           | None \<Rightarrow>
               (case TransactionService_CreateTransaction req now db of
                  (Inl err, db') \<Rightarrow> (SendError 500 ''internal_server_error'' err, db')
                | (Inr transaction, db') \<Rightarrow> ((201, JSON_Transaction transaction), db'))))"

definition TransactionHandler_GetTransactionByID :: "string \<Rightarrow> DB \<Rightarrow> response" where
  "TransactionHandler_GetTransactionByID idStr db =
     (case ParseUint idStr 10 32 of
        Inl _ \<Rightarrow> SendError 400 ''invalid_id'' ''Invalid transaction ID''
      | Inr i \<Rightarrow>
          (case TransactionService_GetTransactionByID i db of
             Inl err \<Rightarrow>
               if err = ''transaction not found''
               then SendError 404 ''not_found'' ''Transaction not found''
               else SendError 500 ''internal_server_error'' err
           | Inr transaction \<Rightarrow> (200, JSON_Transaction transaction)))"

definition TransactionHandler_GetTransactions ::
    "string + TransactionQuery \<Rightarrow> DB \<Rightarrow> response" where
  "TransactionHandler_GetTransactions bound db =
     (case bound of
        Inl err \<Rightarrow> SendValidationError err
      | Inr query \<Rightarrow>
          if q_Status query \<noteq> [] \<and> q_Status query \<noteq> StatusPending
             \<and> q_Status query \<noteq> StatusSuccess \<and> q_Status query \<noteq> StatusFailed
          then SendError 400 ''invalid_status'' ''Status must be one of: pending, success, failed''
          else
            (case TransactionService_GetTransactions query db of
               Inl err \<Rightarrow> SendError 500 ''internal_server_error'' err
             | Inr resp \<Rightarrow> (200, JSON_TransactionResponse resp)))"

definition TransactionHandler_UpdateTransaction ::
    "string \<Rightarrow> string + TransactionUpdateRequest \<Rightarrow> time \<Rightarrow> DB \<Rightarrow> response \<times> DB" where
  "TransactionHandler_UpdateTransaction idStr bound now db =
     (case ParseUint idStr 10 32 of
        Inl _ \<Rightarrow> (SendError 400 ''invalid_id'' ''Invalid transaction ID'', db)
      | Inr i \<Rightarrow>
          (case bound of
             Inl err \<Rightarrow> (SendValidationError err, db)
           | Inr req \<Rightarrow>
               (case validate_TransactionUpdateRequest req of
                  Some err \<Rightarrow> (SendValidationError err, db)
                | None \<Rightarrow>
                    (case TransactionService_UpdateTransaction i req now db of
                       (Inl err, db') \<Rightarrow>
                         if err = ''transaction not found''
                         then (SendError 404 ''not_found'' ''Transaction not found'', db')
                         else (SendError 500 ''internal_server_error'' err, db')
                     | (Inr transaction, db') \<Rightarrow> ((200, JSON_Transaction transaction), db')))))"

definition TransactionHandler_DeleteTransaction ::
    "string \<Rightarrow> time \<Rightarrow> DB \<Rightarrow> response \<times> DB" where
  "TransactionHandler_DeleteTransaction idStr now db =
     (case ParseUint idStr 10 32 of
        Inl _ \<Rightarrow> (SendError 400 ''invalid_id'' ''Invalid transaction ID'', db)
      | Inr i \<Rightarrow>
          (case TransactionService_DeleteTransaction i now db of
             (Some err, db') \<Rightarrow>
               if err = ''transaction not found''
               then (SendError 404 ''not_found'' ''Transaction not found'', db')
               else (SendError 500 ''internal_server_error'' err, db')
           | (None, db') \<Rightarrow> ((204, NoBody), db')))"

definition TransactionHandler_GetDashboardSummary :: "time \<Rightarrow> DB \<Rightarrow> response" where
  "TransactionHandler_GetDashboardSummary now db =
     (case TransactionService_GetDashboardSummary now db of
        Inl err \<Rightarrow> SendError 500 ''internal_server_error'' err
      | Inr summary \<Rightarrow> (200, JSON_DashboardSummary summary))"

text \<open>
  \<open>HealthCheck\<close> is a method of the handler, which holds the service and through it the
  store; the store is an argument here, and the body does not read it.
\<close>

definition TransactionHandler_HealthCheck :: "time \<Rightarrow> DB \<Rightarrow> response" where
  "TransactionHandler_HealthCheck now db = (200, JSON_Health ''healthy'' ''transaction-api'' now)"

section \<open>Notions of the specification\<close>

text \<open>A decimal numeral: a non-empty string of the bytes \<open>0\<close> to \<open>9\<close>, and the number it writes.\<close>

definition is_digit :: "char \<Rightarrow> bool" where
  "is_digit c = (48 \<le> (of_char c :: nat) \<and> (of_char c :: nat) \<le> 57)"

definition is_decimal :: "string \<Rightarrow> bool" where
  "is_decimal s = (s \<noteq> [] \<and> list_all is_digit s)"

definition decimal_from :: "nat \<Rightarrow> string \<Rightarrow> nat" where
  "decimal_from n s = foldl (\<lambda>n c. 10 * n + (of_char c - 48)) n s"

definition decimal_value :: "string \<Rightarrow> nat" where
  "decimal_value s = decimal_from 0 s"

text \<open>The rows a list query is about: live, and agreeing with each filter that is set.\<close>

definition matching :: "TransactionQuery \<Rightarrow> Transaction \<Rightarrow> bool" where
  "matching query t =
     (DeletedAt t = None \<and> (q_UserID query = 0 \<or> UserID t = q_UserID query)
      \<and> (q_Status query = [] \<or> Status t = q_Status query))"

text \<open>The start of the UTC calendar day that contains an instant.\<close>

definition midnight_UTC :: "time \<Rightarrow> time" where
  "midnight_UTC now = (now div (24 * Hour)) * (24 * Hour)"

text \<open>The records the dashboard's sums are about, and the window of today.\<close>

definition successful :: "Transaction \<Rightarrow> bool" where
  "successful t = (DeletedAt t = None \<and> Status t = ''success'')"

definition created_today :: "time \<Rightarrow> Transaction \<Rightarrow> bool" where
  "created_today now t =
     (midnight_UTC now \<le> CreatedAt t \<and> CreatedAt t < midnight_UTC now + 24 * Hour)"

text \<open>
  What the relational engine guarantees of the table: the primary key is unique and
  positive, and the counter is beyond every key handed out.
\<close>

definition store_ok :: "DB \<Rightarrow> bool" where
  "store_ok db =
     (distinct (map ID (table db)) \<and> 0 < auto_increment db \<and>
      list_all (\<lambda>t. 0 < ID t \<and> ID t < auto_increment db) (table db))"

text \<open>A live row is one that carries no deletion marker.\<close>

definition live_row :: "DB \<Rightarrow> nat \<Rightarrow> Transaction option" where
  "live_row db i = find (\<lambda>t. ID t = i \<and> DeletedAt t = None) (table db)"

text \<open>The state after a sequence of mutating service calls, each at its own time.\<close>

datatype call =
    CallCreate TransactionRequest time
  | CallUpdate nat TransactionUpdateRequest time
  | CallDelete nat time

fun after_call :: "call \<Rightarrow> DB \<Rightarrow> DB" where
  "after_call (CallCreate req now) db = snd (TransactionService_CreateTransaction req now db)"
| "after_call (CallUpdate i req now) db = snd (TransactionService_UpdateTransaction i req now db)"
| "after_call (CallDelete i now) db = snd (TransactionService_DeleteTransaction i now db)"

fun after_calls :: "call list \<Rightarrow> DB \<Rightarrow> DB" where
  "after_calls [] db = db"
| "after_calls (c # cs) db = after_calls cs (after_call c db)"

text \<open>
  A sample store for the worked examples: the five records of the specification's example
  (two successes today, one yesterday, one pending and one failed today) and a sixth,
  successful today and since deleted. Today is the third day of the clock, and now is
  five hours into it.
\<close>

definition sample_store :: DB where
  "sample_store =
     \<lparr>table =
        [\<lparr>ID = 1, UserID = 1, Amount = 100, Status = ''success'',
          CreatedAt = 49 * Hour, UpdatedAt = 49 * Hour, DeletedAt = None\<rparr>,
         \<lparr>ID = 2, UserID = 1, Amount = 200, Status = ''success'',
          CreatedAt = 50 * Hour, UpdatedAt = 50 * Hour, DeletedAt = None\<rparr>,
         \<lparr>ID = 3, UserID = 2, Amount = 300, Status = ''success'',
          CreatedAt = 24 * Hour, UpdatedAt = 24 * Hour, DeletedAt = None\<rparr>,
         \<lparr>ID = 4, UserID = 2, Amount = 400, Status = ''pending'',
          CreatedAt = 51 * Hour, UpdatedAt = 51 * Hour, DeletedAt = None\<rparr>,
         \<lparr>ID = 5, UserID = 3, Amount = 500, Status = ''failed'',
          CreatedAt = 52 * Hour, UpdatedAt = 52 * Hour, DeletedAt = None\<rparr>,
         \<lparr>ID = 6, UserID = 3, Amount = 700, Status = ''success'',
          CreatedAt = 49 * Hour, UpdatedAt = 49 * Hour, DeletedAt = Some (50 * Hour)\<rparr>],
      auto_increment = 7,
      conn_up = True\<rparr>"

text \<open>
  Three successes at the edges of the third day: its first instant, its last nanosecond,
  and the first instant of the day after.
\<close>

definition boundary_store :: DB where
  "boundary_store =
     \<lparr>table =
        [\<lparr>ID = 1, UserID = 1, Amount = 10, Status = ''success'',
          CreatedAt = 48 * Hour, UpdatedAt = 48 * Hour, DeletedAt = None\<rparr>,
         \<lparr>ID = 2, UserID = 1, Amount = 20, Status = ''success'',
          CreatedAt = 72 * Hour - 1, UpdatedAt = 72 * Hour - 1, DeletedAt = None\<rparr>,
         \<lparr>ID = 3, UserID = 1, Amount = 40, Status = ''success'',
          CreatedAt = 72 * Hour, UpdatedAt = 72 * Hour, DeletedAt = None\<rparr>],
      auto_increment = 4,
      conn_up = True\<rparr>"

text \<open>Three records created at the same instant, after a fourth.\<close>

definition tie_store :: DB where
  "tie_store =
     \<lparr>table =
        [\<lparr>ID = 1, UserID = 1, Amount = 100, Status = ''success'',
          CreatedAt = 50 * Hour, UpdatedAt = 50 * Hour, DeletedAt = None\<rparr>,
         \<lparr>ID = 2, UserID = 1, Amount = 200, Status = ''pending'',
          CreatedAt = 50 * Hour, UpdatedAt = 50 * Hour, DeletedAt = None\<rparr>,
         \<lparr>ID = 3, UserID = 2, Amount = 300, Status = ''success'',
          CreatedAt = 50 * Hour, UpdatedAt = 50 * Hour, DeletedAt = None\<rparr>,
         \<lparr>ID = 4, UserID = 2, Amount = 400, Status = ''failed'',
          CreatedAt = 49 * Hour, UpdatedAt = 49 * Hour, DeletedAt = None\<rparr>],
      auto_increment = 5,
      conn_up = True\<rparr>"

text \<open>
  Two successes whose amounts are the \<open>float64\<close> values nearest to 0.1 and to 0.2, and
  two successes of \<open>2^1023\<close>, a finite \<open>float64\<close>, each.
\<close>

definition rounding_store :: DB where
  "rounding_store =
     \<lparr>table =
        [\<lparr>ID = 1, UserID = 1, Amount = 3602879701896397 / 36028797018963968,
          Status = ''success'', CreatedAt = 49 * Hour, UpdatedAt = 49 * Hour,
          DeletedAt = None\<rparr>,
         \<lparr>ID = 2, UserID = 2, Amount = 3602879701896397 / 18014398509481984,
          Status = ''success'', CreatedAt = 50 * Hour, UpdatedAt = 50 * Hour,
          DeletedAt = None\<rparr>],
      auto_increment = 3,
      conn_up = True\<rparr>"

definition huge_amount :: rat where
  "huge_amount = 2 ^ 1023"

definition overflow_store :: DB where
  "overflow_store =
     \<lparr>table =
        [\<lparr>ID = 1, UserID = 1, Amount = huge_amount, Status = ''success'',
          CreatedAt = 49 * Hour, UpdatedAt = 49 * Hour, DeletedAt = None\<rparr>,
         \<lparr>ID = 2, UserID = 2, Amount = huge_amount, Status = ''success'',
          CreatedAt = 50 * Hour, UpdatedAt = 50 * Hour, DeletedAt = None\<rparr>],
      auto_increment = 3,
      conn_up = True\<rparr>"

definition sample_now :: time where
  "sample_now = 53 * Hour"

section \<open>Parsing a path id\<close>

lemma decimal_from_simps [simp]:
  "decimal_from n [] = n"
  "decimal_from n (c # cs) = decimal_from (10 * n + (of_char c - 48)) cs"
  by (simp_all add: decimal_from_def)

lemma decimal_from_ge: "n \<le> decimal_from n s"
proof (induction s arbitrary: n)
  case Nil
  show ?case by simp
next
  case (Cons c cs)
  have "n \<le> 10 * n + (of_char c - 48)" by simp
  also have "\<dots> \<le> decimal_from (10 * n + (of_char c - 48)) cs" by (rule Cons.IH)
  finally show ?case by simp
qed

lemma digit_of_digit: "is_digit c \<Longrightarrow> digit_of c = Some (of_char c - 48)"
  by (simp add: digit_of_def is_digit_def)

lemma digit_of_other: "\<not> is_digit c \<Longrightarrow> digit_of c = Some d \<Longrightarrow> 10 \<le> d"
  by (auto simp: digit_of_def is_digit_def Let_def split: if_splits)

text \<open>The loop on a numeral that fits: it returns the number.\<close>

lemma ParseUint_loop_ok:
  "n \<le> 4294967295 \<Longrightarrow> list_all is_digit s \<Longrightarrow> decimal_from n s \<le> 4294967295 \<Longrightarrow>
   ParseUint_loop 10 1844674407370955162 4294967295 n s = Inr (decimal_from n s)"
proof (induction s arbitrary: n)
  case Nil
  then show ?case by simp
next
  case (Cons c cs)
  let ?d = "of_char c - 48 :: nat"
  let ?n1 = "10 * n + ?d"
  from Cons.prems have dig: "is_digit c" and rest: "list_all is_digit cs" by simp_all
  have d: "digit_of c = Some ?d" using dig by (rule digit_of_digit)
  have d10: "?d < 10" using dig by (auto simp: is_digit_def)
  have "?n1 \<le> decimal_from ?n1 cs" by (rule decimal_from_ge)
  with Cons.prems(3) have n1: "?n1 \<le> 4294967295" by simp
  have IH: "ParseUint_loop 10 1844674407370955162 4294967295 ?n1 cs = Inr (decimal_from ?n1 cs)"
    using Cons.IH [OF n1 rest] Cons.prems(3) by simp
  have m: "(n * 10 + ?d) mod 2 ^ 64 = ?n1" using n1 by (simp add: mult.commute)
  show ?case using d d10 Cons.prems(1) n1 IH m
    by (simp add: Let_def mult.commute)
qed

text \<open>The loop on anything else: it stops with an error.\<close>

lemma ParseUint_loop_bad:
  "n \<le> 4294967295 \<Longrightarrow> \<not> (list_all is_digit s \<and> decimal_from n s \<le> 4294967295) \<Longrightarrow>
   isl (ParseUint_loop 10 1844674407370955162 4294967295 n s)"
proof (induction s arbitrary: n)
  case Nil
  then show ?case by simp
next
  case (Cons c cs)
  let ?d = "of_char c - 48 :: nat"
  let ?n1 = "10 * n + ?d"
  show ?case
  proof (cases "is_digit c")
    case False
    then show ?thesis
      by (cases "digit_of c") (auto dest: digit_of_other simp: Let_def)
  next
    case True
    have d: "digit_of c = Some ?d" using True by (rule digit_of_digit)
    have d10: "?d < 10" using True by (auto simp: is_digit_def)
    have lt: "n * 10 + ?d < 2 ^ 64" using Cons.prems(1) d10 by simp
    have m: "(n * 10 + ?d) mod 2 ^ 64 = ?n1" using lt by (simp add: mult.commute)
    show ?thesis
    proof (cases "?n1 \<le> 4294967295")
      case False
      then show ?thesis using d d10 Cons.prems(1) m by (simp add: Let_def mult.commute)
    next
      case n1: True
      have "\<not> (list_all is_digit cs \<and> decimal_from ?n1 cs \<le> 4294967295)"
        using Cons.prems(2) True by simp
      from Cons.IH [OF n1 this] show ?thesis
        using d d10 Cons.prems(1) m n1 by (simp add: Let_def mult.commute)
    qed
  qed
qed

lemma ParseUint_10_32_ok:
  "is_decimal s \<Longrightarrow> decimal_value s \<le> 4294967295 \<Longrightarrow> ParseUint s 10 32 = Inr (decimal_value s)"
  using ParseUint_loop_ok [of 0 s]
  by (simp add: ParseUint_def is_decimal_def decimal_value_def)

lemma ParseUint_10_32_bad:
  "\<not> is_decimal s \<or> 4294967295 < decimal_value s \<Longrightarrow> isl (ParseUint s 10 32)"
  using ParseUint_loop_bad [of 0 s]
  by (auto simp: ParseUint_def is_decimal_def decimal_value_def)

text \<open>
  Claim C10. On the three routes that carry an id, the path parameter goes through
  \<open>ParseUint\<close> with base 10 and 32 bits. A string that is not a decimal numeral (a
  sign, a letter, the empty string) or that writes a number above \<open>2^32 - 1\<close> gets the
  response 400 \<open>invalid_id\<close>, the same for every store, and the store is returned as it
  was. A decimal numeral within range parses to its number, which is what the service is
  asked for.
\<close>

theorem invalid_id_rejected:
  "(\<not> is_decimal idStr \<or> 2 ^ 32 - 1 < decimal_value idStr \<longrightarrow>
      TransactionHandler_GetTransactionByID idStr db =
        (400, JSON_ErrorResponse \<lparr>Error = ''invalid_id'', Message = ''Invalid transaction ID'',
                                  Details = []\<rparr>)
    \<and> TransactionHandler_UpdateTransaction idStr bound now db =
        ((400, JSON_ErrorResponse \<lparr>Error = ''invalid_id'', Message = ''Invalid transaction ID'',
                                   Details = []\<rparr>), db)
    \<and> TransactionHandler_DeleteTransaction idStr now db =
        ((400, JSON_ErrorResponse \<lparr>Error = ''invalid_id'', Message = ''Invalid transaction ID'',
                                   Details = []\<rparr>), db))
   \<and> (is_decimal idStr \<and> decimal_value idStr \<le> 2 ^ 32 - 1 \<longrightarrow>
      ParseUint idStr 10 32 = Inr (decimal_value idStr)
    \<and> TransactionHandler_GetTransactionByID idStr db =
        (case TransactionService_GetTransactionByID (decimal_value idStr) db of
           Inl err \<Rightarrow> if err = ''transaction not found''
                      then SendError 404 ''not_found'' ''Transaction not found''
                      else SendError 500 ''internal_server_error'' err
         | Inr transaction \<Rightarrow> (200, JSON_Transaction transaction)))"
proof (intro conjI impI)
  assume bad: "\<not> is_decimal idStr \<or> 2 ^ 32 - 1 < decimal_value idStr"
  then have "isl (ParseUint idStr 10 32)"
    using ParseUint_10_32_bad [of idStr] by simp
  then obtain e where e: "ParseUint idStr 10 32 = Inl e"
    by (cases "ParseUint idStr 10 32") simp_all
  show "TransactionHandler_GetTransactionByID idStr db =
        (400, JSON_ErrorResponse \<lparr>Error = ''invalid_id'', Message = ''Invalid transaction ID'',
                                  Details = []\<rparr>)"
    by (simp add: TransactionHandler_GetTransactionByID_def e SendError_def)
  show "TransactionHandler_UpdateTransaction idStr bound now db =
        ((400, JSON_ErrorResponse \<lparr>Error = ''invalid_id'', Message = ''Invalid transaction ID'',
                                   Details = []\<rparr>), db)"
    by (simp add: TransactionHandler_UpdateTransaction_def e SendError_def)
  show "TransactionHandler_DeleteTransaction idStr now db =
        ((400, JSON_ErrorResponse \<lparr>Error = ''invalid_id'', Message = ''Invalid transaction ID'',
                                   Details = []\<rparr>), db)"
    by (simp add: TransactionHandler_DeleteTransaction_def e SendError_def)
next
  assume ok: "is_decimal idStr \<and> decimal_value idStr \<le> 2 ^ 32 - 1"
  then show p: "ParseUint idStr 10 32 = Inr (decimal_value idStr)"
    using ParseUint_10_32_ok [of idStr] by simp
  show "TransactionHandler_GetTransactionByID idStr db =
        (case TransactionService_GetTransactionByID (decimal_value idStr) db of
           Inl err \<Rightarrow> if err = ''transaction not found''
                      then SendError 404 ''not_found'' ''Transaction not found''
                      else SendError 500 ''internal_server_error'' err
         | Inr transaction \<Rightarrow> (200, JSON_Transaction transaction))"
    by (simp add: TransactionHandler_GetTransactionByID_def p)
qed

text \<open>
  The ids \<open>-5\<close> (a sign) and \<open>4294967296\<close> (one above the range) are refused on a
  store that answers; the id \<open>999\<close> is parsed and looked up, and is not found in the
  empty table.
\<close>

theorem invalid_id_rejected_witness:
  "\<not> is_decimal ''-5''
   \<and> TransactionHandler_GetTransactionByID ''-5''
        \<lparr>table = [], auto_increment = 1, conn_up = True\<rparr> =
        (400, JSON_ErrorResponse \<lparr>Error = ''invalid_id'', Message = ''Invalid transaction ID'',
                                  Details = []\<rparr>)
   \<and> 2 ^ 32 - 1 < decimal_value ''4294967296''
   \<and> TransactionHandler_DeleteTransaction ''4294967296'' 7
        \<lparr>table = [], auto_increment = 1, conn_up = True\<rparr> =
        ((400, JSON_ErrorResponse \<lparr>Error = ''invalid_id'', Message = ''Invalid transaction ID'',
                                   Details = []\<rparr>),
         \<lparr>table = [], auto_increment = 1, conn_up = True\<rparr>)
   \<and> is_decimal ''999'' \<and> decimal_value ''999'' \<le> 2 ^ 32 - 1
   \<and> TransactionHandler_GetTransactionByID ''999''
        \<lparr>table = [], auto_increment = 1, conn_up = True\<rparr> =
        (404, JSON_ErrorResponse \<lparr>Error = ''not_found'', Message = ''Transaction not found'',
                                  Details = []\<rparr>)"
  using
    invalid_id_rejected [of "''-5''" "\<lparr>table = [], auto_increment = 1, conn_up = True\<rparr>" "Inl []" 0]
    invalid_id_rejected [of "''4294967296''" "\<lparr>table = [], auto_increment = 1, conn_up = True\<rparr>" "Inl []" 7]
    invalid_id_rejected [of "''999''" "\<lparr>table = [], auto_increment = 1, conn_up = True\<rparr>" "Inl []" 7]
  by (simp add: is_decimal_def is_digit_def decimal_value_def decimal_from_def
      TransactionService_GetTransactionByID_def gorm_First_def scope_def SendError_def)

section \<open>The health endpoint\<close>

text \<open>
  Claim C9. \<open>GET /health\<close> answers 200 with status \<open>healthy\<close> whatever the store is:
  the handler does not read it. On a store whose connection is down, where \<open>Ping\<close>
  reports the failure and the dashboard answers 500, the health endpoint still answers
  200 \<open>healthy\<close>.
\<close>

theorem HealthCheck_unconditional:
  "TransactionHandler_HealthCheck now db = (200, JSON_Health ''healthy'' ''transaction-api'' now)
   \<and> Ping (db\<lparr>conn_up := False\<rparr>) = Some ErrConn
   \<and> fst (TransactionHandler_GetDashboardSummary now (db\<lparr>conn_up := False\<rparr>)) = 500
   \<and> TransactionHandler_HealthCheck now (db\<lparr>conn_up := False\<rparr>) =
       (200, JSON_Health ''healthy'' ''transaction-api'' now)"
  by (simp add: TransactionHandler_HealthCheck_def Ping_def
      TransactionHandler_GetDashboardSummary_def TransactionService_GetDashboardSummary_def
      gorm_Count_def SendError_def Let_def)

section \<open>Creating a transaction\<close>

lemma validate_TransactionRequest_None:
  "validate_TransactionRequest req = None \<longleftrightarrow> 0 < req_Amount req \<and> req_UserID req \<noteq> 0"
  by (auto simp: validate_TransactionRequest_def)

text \<open>
  Claim C1. A create request whose body binds to a request with \<open>amount <= 0\<close> or with
  \<open>user_id\<close> missing (left at zero) is answered 400 \<open>validation_error\<close> and nothing is
  stored. A request with \<open>amount > 0\<close> and a nonzero \<open>user_id\<close>, on a store that
  answers, is answered 201 with the record created: the next key, the request's user and
  amount, status \<open>pending\<close>, both timestamps the store's clock, no deletion marker; and
  exactly that record is appended to the table.
\<close>

theorem CreateTransaction_validation:
  "(req_Amount req \<le> 0 \<or> req_UserID req = 0 \<longrightarrow>
      (\<exists>details. TransactionHandler_CreateTransaction (Inr req) now db =
         ((400, JSON_ErrorResponse \<lparr>Error = ''validation_error'',
                                    Message = ''Request validation failed'',
                                    Details = details\<rparr>), db)))
   \<and> (0 < req_Amount req \<and> req_UserID req \<noteq> 0 \<and> conn_up db \<longrightarrow>
      TransactionHandler_CreateTransaction (Inr req) now db =
        ((201, JSON_Transaction
                 \<lparr>ID = auto_increment db, UserID = req_UserID req, Amount = req_Amount req,
                  Status = ''pending'', CreatedAt = now, UpdatedAt = now, DeletedAt = None\<rparr>),
         db\<lparr>table := table db @
                 [\<lparr>ID = auto_increment db, UserID = req_UserID req, Amount = req_Amount req,
                   Status = ''pending'', CreatedAt = now, UpdatedAt = now, DeletedAt = None\<rparr>],
            auto_increment := auto_increment db + 1\<rparr>))"
proof (intro conjI impI)
  assume "req_Amount req \<le> 0 \<or> req_UserID req = 0"
  then obtain d where "validate_TransactionRequest req = Some d"
    using validate_TransactionRequest_None [of req]
    by (cases "validate_TransactionRequest req") auto
  then show "\<exists>details. TransactionHandler_CreateTransaction (Inr req) now db =
         ((400, JSON_ErrorResponse \<lparr>Error = ''validation_error'',
                                    Message = ''Request validation failed'',
                                    Details = details\<rparr>), db)"
    by (simp add: TransactionHandler_CreateTransaction_def SendValidationError_def)
next
  assume ok: "0 < req_Amount req \<and> req_UserID req \<noteq> 0 \<and> conn_up db"
  then have v: "validate_TransactionRequest req = None"
    by (simp add: validate_TransactionRequest_None)
  show "TransactionHandler_CreateTransaction (Inr req) now db =
        ((201, JSON_Transaction
                 \<lparr>ID = auto_increment db, UserID = req_UserID req, Amount = req_Amount req,
                  Status = ''pending'', CreatedAt = now, UpdatedAt = now, DeletedAt = None\<rparr>),
         db\<lparr>table := table db @
                 [\<lparr>ID = auto_increment db, UserID = req_UserID req, Amount = req_Amount req,
                   Status = ''pending'', CreatedAt = now, UpdatedAt = now, DeletedAt = None\<rparr>],
            auto_increment := auto_increment db + 1\<rparr>)"
    using ok
    by (simp add: TransactionHandler_CreateTransaction_def v
        TransactionService_CreateTransaction_def gorm_Create_def StatusPending_def Let_def)
qed

text \<open>
  Amount 0 is refused; user 1 with amount 100.50 on the empty store is created as record 1.
\<close>

theorem CreateTransaction_validation_witness:
  "(0 :: rat) \<le> 0
   \<and> (\<exists>details. TransactionHandler_CreateTransaction
         (Inr \<lparr>req_UserID = 1, req_Amount = 0\<rparr>) 5
         \<lparr>table = [], auto_increment = 1, conn_up = True\<rparr> =
         ((400, JSON_ErrorResponse \<lparr>Error = ''validation_error'',
                                    Message = ''Request validation failed'',
                                    Details = details\<rparr>),
          \<lparr>table = [], auto_increment = 1, conn_up = True\<rparr>))
   \<and> (0 :: rat) < 201 / 2
   \<and> TransactionHandler_CreateTransaction
         (Inr \<lparr>req_UserID = 1, req_Amount = 201 / 2\<rparr>) 5
         \<lparr>table = [], auto_increment = 1, conn_up = True\<rparr> =
        ((201, JSON_Transaction
                 \<lparr>ID = 1, UserID = 1, Amount = 201 / 2,
                  Status = ''pending'', CreatedAt = 5, UpdatedAt = 5, DeletedAt = None\<rparr>),
         \<lparr>table = [\<lparr>ID = 1, UserID = 1, Amount = 201 / 2,
                   Status = ''pending'', CreatedAt = 5, UpdatedAt = 5, DeletedAt = None\<rparr>],
          auto_increment = 2, conn_up = True\<rparr>)"
  using CreateTransaction_validation
          [of "\<lparr>req_UserID = 1, req_Amount = 0\<rparr>" 5 "\<lparr>table = [], auto_increment = 1, conn_up = True\<rparr>"]
        CreateTransaction_validation
          [of "\<lparr>req_UserID = 1, req_Amount = 201 / 2\<rparr>" 5 "\<lparr>table = [], auto_increment = 1, conn_up = True\<rparr>"]
  by simp

section \<open>Status values\<close>

lemma validate_TransactionUpdateRequest_None:
  "validate_TransactionUpdateRequest req = None \<longleftrightarrow>
     upd_Status req \<in> {''pending'', ''success'', ''failed''}"
  by (auto simp: validate_TransactionUpdateRequest_def)

lemma GetTransactions_answers:
  "conn_up db \<Longrightarrow> \<exists>r. TransactionService_GetTransactions query db = Inr r"
  by (simp add: TransactionService_GetTransactions_def gorm_Count_def gorm_Find_def Let_def)

lemma UpdateTransaction_answers:
  "conn_up db \<Longrightarrow>
   (\<exists>t db'. TransactionService_UpdateTransaction i req now db = (Inr t, db')) \<or>
   TransactionService_UpdateTransaction i req now db = (Inl ''transaction not found'', db)"
  by (auto simp: TransactionService_UpdateTransaction_def gorm_First_def gorm_Save_def Let_def
      split: list.splits)

text \<open>
  Claim C4, as amended. The list filter treats the empty status as no filter, accepts
  exactly \<open>pending\<close>, \<open>success\<close> and \<open>failed\<close>, compared byte by byte, and answers
  any other string with 400 \<open>invalid_status\<close>. The update body is checked by the
  validator: exactly the three strings pass (the answer is then 200 or 404 on a store
  that answers), and any other string, the empty one included, is answered 400 with the
  error code \<open>validation_error\<close>, the store untouched.
\<close>

theorem status_values_checked:
  "(q_Status query \<notin> {[], ''pending'', ''success'', ''failed''} \<longrightarrow>
      TransactionHandler_GetTransactions (Inr query) db =
        (400, JSON_ErrorResponse
                \<lparr>Error = ''invalid_status'',
                 Message = ''Status must be one of: pending, success, failed'',
                 Details = []\<rparr>))
   \<and> (q_Status query \<in> {[], ''pending'', ''success'', ''failed''} \<and> conn_up db \<longrightarrow>
      fst (TransactionHandler_GetTransactions (Inr query) db) = 200)
   \<and> (is_decimal idStr \<and> decimal_value idStr \<le> 2 ^ 32 - 1
      \<and> upd_Status req \<notin> {''pending'', ''success'', ''failed''} \<longrightarrow>
      (\<exists>details. TransactionHandler_UpdateTransaction idStr (Inr req) now db =
         ((400, JSON_ErrorResponse \<lparr>Error = ''validation_error'',
                                    Message = ''Request validation failed'',
                                    Details = details\<rparr>), db)))
   \<and> (is_decimal idStr \<and> decimal_value idStr \<le> 2 ^ 32 - 1
      \<and> upd_Status req \<in> {''pending'', ''success'', ''failed''} \<and> conn_up db \<longrightarrow>
      fst (fst (TransactionHandler_UpdateTransaction idStr (Inr req) now db)) \<in> {200, 404})"
proof (intro conjI impI)
  assume "q_Status query \<notin> {[], ''pending'', ''success'', ''failed''}"
  then show "TransactionHandler_GetTransactions (Inr query) db =
        (400, JSON_ErrorResponse
                \<lparr>Error = ''invalid_status'',
                 Message = ''Status must be one of: pending, success, failed'',
                 Details = []\<rparr>)"
    by (simp add: TransactionHandler_GetTransactions_def SendError_def
        StatusPending_def StatusSuccess_def StatusFailed_def)
next
  assume a: "q_Status query \<in> {[], ''pending'', ''success'', ''failed''} \<and> conn_up db"
  then obtain r where r: "TransactionService_GetTransactions query db = Inr r"
    using GetTransactions_answers by blast
  from a have "\<not> (q_Status query \<noteq> [] \<and> q_Status query \<noteq> StatusPending
             \<and> q_Status query \<noteq> StatusSuccess \<and> q_Status query \<noteq> StatusFailed)"
    by (auto simp: StatusPending_def StatusSuccess_def StatusFailed_def)
  then show "fst (TransactionHandler_GetTransactions (Inr query) db) = 200"
    by (auto simp: TransactionHandler_GetTransactions_def r)
next
  assume a: "is_decimal idStr \<and> decimal_value idStr \<le> 2 ^ 32 - 1
      \<and> upd_Status req \<notin> {''pending'', ''success'', ''failed''}"
  then have p: "ParseUint idStr 10 32 = Inr (decimal_value idStr)"
    using ParseUint_10_32_ok [of idStr] by simp
  from a obtain d where "validate_TransactionUpdateRequest req = Some d"
    using validate_TransactionUpdateRequest_None [of req]
    by (cases "validate_TransactionUpdateRequest req") auto
  then show "\<exists>details. TransactionHandler_UpdateTransaction idStr (Inr req) now db =
         ((400, JSON_ErrorResponse \<lparr>Error = ''validation_error'',
                                    Message = ''Request validation failed'',
                                    Details = details\<rparr>), db)"
    by (simp add: TransactionHandler_UpdateTransaction_def p SendValidationError_def)
next
  assume a: "is_decimal idStr \<and> decimal_value idStr \<le> 2 ^ 32 - 1
      \<and> upd_Status req \<in> {''pending'', ''success'', ''failed''} \<and> conn_up db"
  then have p: "ParseUint idStr 10 32 = Inr (decimal_value idStr)"
    using ParseUint_10_32_ok [of idStr] by simp
  from a have v: "validate_TransactionUpdateRequest req = None"
    by (simp add: validate_TransactionUpdateRequest_None)
  from a have "conn_up db" by simp
  from UpdateTransaction_answers [OF this, of "decimal_value idStr" req now]
  show "fst (fst (TransactionHandler_UpdateTransaction idStr (Inr req) now db)) \<in> {200, 404}"
    by (auto simp: TransactionHandler_UpdateTransaction_def p v SendError_def)
qed

text \<open>
  Claim C4, as stated, fails on the update route: updating the existing record 1 with the
  status \<open>invalid\<close> is answered 400 with the error code \<open>validation_error\<close>, not
  \<open>invalid_status\<close>.
\<close>

theorem update_invalid_status_counterexample:
  "fst (TransactionHandler_UpdateTransaction ''1'' (Inr \<lparr>upd_Status = ''invalid''\<rparr>) 9
          \<lparr>table = [\<lparr>ID = 1, UserID = 1, Amount = 100, Status = ''pending'',
                     CreatedAt = 5, UpdatedAt = 5, DeletedAt = None\<rparr>],
           auto_increment = 2, conn_up = True\<rparr>)
     = (400, JSON_ErrorResponse \<lparr>Error = ''validation_error'',
                                Message = ''Request validation failed'',
                                Details = ''Status: oneof''\<rparr>)
   \<and> fst (TransactionHandler_UpdateTransaction ''1'' (Inr \<lparr>upd_Status = ''invalid''\<rparr>) 9
          \<lparr>table = [\<lparr>ID = 1, UserID = 1, Amount = 100, Status = ''pending'',
                     CreatedAt = 5, UpdatedAt = 5, DeletedAt = None\<rparr>],
           auto_increment = 2, conn_up = True\<rparr>)
     \<noteq> (400, JSON_ErrorResponse \<lparr>Error = ''invalid_status'',
                                Message = ''Status must be one of: pending, success, failed'',
                                Details = []\<rparr>)"
  by (simp add: TransactionHandler_UpdateTransaction_def ParseUint_def digit_of_def
      validate_TransactionUpdateRequest_def SendValidationError_def)

text \<open>
  \<open>Pending\<close> and \<open>SUCCESS\<close> differ from the accepted strings in case only and are
  refused; \<open>pending\<close> and \<open>success\<close> pass.
\<close>

theorem status_values_checked_witness:
  "''Pending'' \<notin> {[], ''pending'', ''success'', ''failed''}
   \<and> TransactionHandler_GetTransactions
        (Inr \<lparr>q_UserID = 0, q_Status = ''Pending'', q_Limit = 0, q_Offset = 0, q_Page = 0\<rparr>)
        \<lparr>table = [], auto_increment = 1, conn_up = True\<rparr> =
        (400, JSON_ErrorResponse
                \<lparr>Error = ''invalid_status'',
                 Message = ''Status must be one of: pending, success, failed'',
                 Details = []\<rparr>)
   \<and> fst (TransactionHandler_GetTransactions
        (Inr \<lparr>q_UserID = 0, q_Status = ''pending'', q_Limit = 0, q_Offset = 0, q_Page = 0\<rparr>)
        \<lparr>table = [], auto_increment = 1, conn_up = True\<rparr>) = 200
   \<and> is_decimal ''1'' \<and> decimal_value ''1'' \<le> 2 ^ 32 - 1
   \<and> (\<exists>details. TransactionHandler_UpdateTransaction ''1'' (Inr \<lparr>upd_Status = ''SUCCESS''\<rparr>) 9
          \<lparr>table = [], auto_increment = 1, conn_up = True\<rparr> =
         ((400, JSON_ErrorResponse \<lparr>Error = ''validation_error'',
                                    Message = ''Request validation failed'',
                                    Details = details\<rparr>),
          \<lparr>table = [], auto_increment = 1, conn_up = True\<rparr>))
   \<and> fst (fst (TransactionHandler_UpdateTransaction ''1'' (Inr \<lparr>upd_Status = ''success''\<rparr>) 9
          \<lparr>table = [], auto_increment = 1, conn_up = True\<rparr>)) \<in> {200, 404}"
  using
    status_values_checked [where query = "\<lparr>q_UserID = 0, q_Status = ''Pending'', q_Limit = 0, q_Offset = 0, q_Page = 0\<rparr>"
      and db = "\<lparr>table = [], auto_increment = 1, conn_up = True\<rparr>" and idStr = "''1''"
      and req = "\<lparr>upd_Status = ''SUCCESS''\<rparr>" and now = 9]
    status_values_checked [where query = "\<lparr>q_UserID = 0, q_Status = ''pending'', q_Limit = 0, q_Offset = 0, q_Page = 0\<rparr>"
      and db = "\<lparr>table = [], auto_increment = 1, conn_up = True\<rparr>" and idStr = "''1''"
      and req = "\<lparr>upd_Status = ''success''\<rparr>" and now = 9]
  by (simp add: is_decimal_def is_digit_def decimal_value_def)

section \<open>Rows, keys and deletion markers\<close>

lemma find_filter_Nil: "find P xs = None \<longleftrightarrow> filter P xs = []"
  by (induction xs) auto

lemma find_filter_Cons: "find P xs = Some x \<Longrightarrow> \<exists>ys. filter P xs = x # ys"
  by (induction xs) (auto split: if_splits)

lemma gorm_First_live_row:
  "conn_up db \<Longrightarrow>
   gorm_First i db = (case live_row db i of None \<Rightarrow> Inl ErrRecordNotFound | Some t \<Rightarrow> Inr t)"
proof -
  assume up: "conn_up db"
  have eq: "filter (\<lambda>t. ID t = i) (scope [] db) = filter (\<lambda>t. ID t = i \<and> DeletedAt t = None) (table db)"
    by (auto simp: scope_def intro: filter_cong)
  show ?thesis
  proof (cases "live_row db i")
    case None
    then have "filter (\<lambda>t. ID t = i \<and> DeletedAt t = None) (table db) = []"
      by (simp add: live_row_def find_filter_Nil)
    then show ?thesis using up eq None
      by (simp add: gorm_First_def)
  next
    case (Some t)
    then obtain ys where "filter (\<lambda>t. ID t = i \<and> DeletedAt t = None) (table db) = t # ys"
      unfolding live_row_def by (blast dest: find_filter_Cons)
    then show ?thesis using up eq Some
      by (simp add: gorm_First_def)
  qed
qed

lemma live_row_SomeD:
  "live_row db i = Some t \<Longrightarrow> t \<in> set (table db) \<and> ID t = i \<and> DeletedAt t = None"
  unfolding live_row_def by (auto simp: find_Some_iff)

lemma live_row_None_iff:
  "live_row db i = None \<longleftrightarrow> (\<forall>t \<in> set (table db). ID t = i \<longrightarrow> DeletedAt t \<noteq> None)"
  unfolding live_row_def by (auto simp: find_None_iff)

lemma distinct_map_eq:
  "distinct (map f xs) \<Longrightarrow> x \<in> set xs \<Longrightarrow> y \<in> set xs \<Longrightarrow> f x = f y \<Longrightarrow> x = y"
  by (meson distinct_map inj_onD)

lemma live_row_unique:
  assumes "store_ok db" "t \<in> set (table db)" "ID t = i" "DeletedAt t = None"
  shows "live_row db i = Some t"
proof -
  from assms have "live_row db i \<noteq> None" by (auto simp: live_row_None_iff)
  then obtain t' where t': "live_row db i = Some t'" by auto
  from live_row_SomeD [OF t'] assms have "t' = t"
    by (auto simp: store_ok_def intro: distinct_map_eq [of ID "table db"])
  with t' show ?thesis by simp
qed

section \<open>Updating a transaction\<close>

text \<open>Rewriting the live row with one key, in a table of distinct keys.\<close>

lemma map_by_key:
  assumes "distinct (map ID xs)" "t \<in> set xs" "DeletedAt t = None"
  shows "map (\<lambda>r. if ID r = ID t \<and> DeletedAt r = None then f r else r) xs =
         map (\<lambda>r. if r = t then f r else r) xs"
  using assms by (intro map_cong) (auto dest: distinct_map_eq [of ID xs])

lemma UpdateTransaction_live:
  assumes ok: "store_ok db" and up: "conn_up db"
    and t: "t \<in> set (table db)" "ID t = i" "DeletedAt t = None"
  shows "TransactionService_UpdateTransaction i req now db =
           (Inr (t\<lparr>Status := upd_Status req, UpdatedAt := now\<rparr>),
            db\<lparr>table := map (\<lambda>r. if r = t then r\<lparr>Status := upd_Status req, UpdatedAt := now\<rparr>
                                   else r) (table db)\<rparr>)"
proof -
  have lr: "live_row db i = Some t" using ok t by (rule live_row_unique)
  have first: "gorm_First i db = Inr t" using up lr by (simp add: gorm_First_live_row)
  have d: "distinct (map ID (table db))" using ok by (simp add: store_ok_def)
  have "map (\<lambda>r. if ID r = ID t \<and> DeletedAt r = None
                  then (\<lambda>r. r\<lparr>Status := upd_Status req, UpdatedAt := now\<rparr>) t else r) (table db) =
        map (\<lambda>r. if r = t then r\<lparr>Status := upd_Status req, UpdatedAt := now\<rparr> else r) (table db)"
    using d t(1,3) by (intro map_cong) (auto dest: distinct_map_eq [of ID "table db"])
  then show ?thesis using up
    by (simp add: TransactionService_UpdateTransaction_def first gorm_Save_def Let_def)
qed

lemma not_found_when_no_live_row:
  assumes up: "conn_up db" and none: "live_row db i = None"
  shows "TransactionService_GetTransactionByID i db = Inl ''transaction not found''"
    and "TransactionService_UpdateTransaction i req now db = (Inl ''transaction not found'', db)"
    and "TransactionService_DeleteTransaction i now db = (Some ''transaction not found'', db)"
  using up none
  by (simp_all add: TransactionService_GetTransactionByID_def
      TransactionService_UpdateTransaction_def TransactionService_DeleteTransaction_def
      gorm_First_live_row)

text \<open>
  Claim C5. On a store that answers, whose keys are distinct: updating the id of a live
  row returns that row with \<open>status\<close> replaced by the new status and \<open>updated_at\<close> by
  the store's clock, every other field (id, user, amount, creation time) as it was, and
  the table afterwards differs from the table before in that row alone. Updating an id
  that no row carries, or whose row carries a deletion marker, fails with
  \<open>transaction not found\<close> and leaves the store as it was.
\<close>

theorem UpdateTransaction_frame:
  assumes "store_ok db" and "conn_up db"
  shows "(\<forall>t \<in> set (table db). ID t = i \<and> DeletedAt t = None \<longrightarrow>
            TransactionService_UpdateTransaction i req now db =
              (Inr \<lparr>ID = ID t, UserID = UserID t, Amount = Amount t, Status = upd_Status req,
                    CreatedAt = CreatedAt t, UpdatedAt = now, DeletedAt = None\<rparr>,
               db\<lparr>table := map (\<lambda>r. if r = t
                                     then \<lparr>ID = ID t, UserID = UserID t, Amount = Amount t,
                                           Status = upd_Status req, CreatedAt = CreatedAt t,
                                           UpdatedAt = now, DeletedAt = None\<rparr>
                                     else r) (table db)\<rparr>))
       \<and> ((\<forall>t \<in> set (table db). ID t = i \<longrightarrow> DeletedAt t \<noteq> None) \<longrightarrow>
            TransactionService_UpdateTransaction i req now db = (Inl ''transaction not found'', db))"
proof (intro conjI ballI impI)
  fix t
  assume t: "t \<in> set (table db)" and "ID t = i \<and> DeletedAt t = None"
  then have t2: "ID t = i" "DeletedAt t = None" by simp_all
  have rec: "t\<lparr>Status := upd_Status req, UpdatedAt := now\<rparr> =
             \<lparr>ID = ID t, UserID = UserID t, Amount = Amount t, Status = upd_Status req,
              CreatedAt = CreatedAt t, UpdatedAt = now, DeletedAt = None\<rparr>"
    using t2 by (cases t) simp
  have m: "map (\<lambda>r. if r = t then r\<lparr>Status := upd_Status req, UpdatedAt := now\<rparr> else r) (table db) =
           map (\<lambda>r. if r = t then t\<lparr>Status := upd_Status req, UpdatedAt := now\<rparr> else r) (table db)"
    by (intro map_cong) auto
  show "TransactionService_UpdateTransaction i req now db =
              (Inr \<lparr>ID = ID t, UserID = UserID t, Amount = Amount t, Status = upd_Status req,
                    CreatedAt = CreatedAt t, UpdatedAt = now, DeletedAt = None\<rparr>,
               db\<lparr>table := map (\<lambda>r. if r = t
                                     then \<lparr>ID = ID t, UserID = UserID t, Amount = Amount t,
                                           Status = upd_Status req, CreatedAt = CreatedAt t,
                                           UpdatedAt = now, DeletedAt = None\<rparr>
                                     else r) (table db)\<rparr>)"
    using UpdateTransaction_live [OF assms t t2, of req now] m rec by simp
next
  assume "\<forall>t \<in> set (table db). ID t = i \<longrightarrow> DeletedAt t \<noteq> None"
  then have "live_row db i = None" by (simp add: live_row_None_iff)
  with assms(2) show "TransactionService_UpdateTransaction i req now db =
      (Inl ''transaction not found'', db)"
    by (rule not_found_when_no_live_row)
qed

text \<open>
  On the sample store: record 4 goes from \<open>pending\<close> to \<open>success\<close> and only its status
  and \<open>updated_at\<close> change; the deleted record 6 and the absent id 99 are not found.
\<close>

theorem UpdateTransaction_frame_witness:
  "store_ok sample_store \<and> conn_up sample_store
   \<and> TransactionService_UpdateTransaction 4 \<lparr>upd_Status = ''success''\<rparr> sample_now sample_store =
       (Inr \<lparr>ID = 4, UserID = 2, Amount = 400, Status = ''success'',
             CreatedAt = 51 * Hour, UpdatedAt = 53 * Hour, DeletedAt = None\<rparr>,
        sample_store\<lparr>table :=
          [\<lparr>ID = 1, UserID = 1, Amount = 100, Status = ''success'',
            CreatedAt = 49 * Hour, UpdatedAt = 49 * Hour, DeletedAt = None\<rparr>,
           \<lparr>ID = 2, UserID = 1, Amount = 200, Status = ''success'',
            CreatedAt = 50 * Hour, UpdatedAt = 50 * Hour, DeletedAt = None\<rparr>,
           \<lparr>ID = 3, UserID = 2, Amount = 300, Status = ''success'',
            CreatedAt = 24 * Hour, UpdatedAt = 24 * Hour, DeletedAt = None\<rparr>,
           \<lparr>ID = 4, UserID = 2, Amount = 400, Status = ''success'',
            CreatedAt = 51 * Hour, UpdatedAt = 53 * Hour, DeletedAt = None\<rparr>,
           \<lparr>ID = 5, UserID = 3, Amount = 500, Status = ''failed'',
            CreatedAt = 52 * Hour, UpdatedAt = 52 * Hour, DeletedAt = None\<rparr>,
           \<lparr>ID = 6, UserID = 3, Amount = 700, Status = ''success'',
            CreatedAt = 49 * Hour, UpdatedAt = 49 * Hour, DeletedAt = Some (50 * Hour)\<rparr>]\<rparr>)
   \<and> TransactionService_UpdateTransaction 6 \<lparr>upd_Status = ''failed''\<rparr> sample_now sample_store =
       (Inl ''transaction not found'', sample_store)
   \<and> TransactionService_UpdateTransaction 99 \<lparr>upd_Status = ''failed''\<rparr> sample_now sample_store =
       (Inl ''transaction not found'', sample_store)"
proof -
  have ok: "store_ok sample_store" and up: "conn_up sample_store"
    by (simp_all add: sample_store_def store_ok_def)
  show ?thesis
    using ok up
      UpdateTransaction_frame [OF ok up, of 4 "\<lparr>upd_Status = ''success''\<rparr>" sample_now]
      UpdateTransaction_frame [OF ok up, of 6 "\<lparr>upd_Status = ''failed''\<rparr>" sample_now]
      UpdateTransaction_frame [OF ok up, of 99 "\<lparr>upd_Status = ''failed''\<rparr>" sample_now]
    by (simp add: sample_store_def sample_now_def)
qed

section \<open>Deleting a transaction\<close>

lemma after_call_conn_up [simp]: "conn_up (after_call c db) = conn_up db"
  by (cases c)
     (auto simp: TransactionService_CreateTransaction_def
        TransactionService_UpdateTransaction_def TransactionService_DeleteTransaction_def
        gorm_Create_def gorm_Save_def gorm_Delete_def Let_def
        split: sum.splits prod.splits if_splits option.splits)

lemma after_calls_conn_up [simp]: "conn_up (after_calls cs db) = conn_up db"
  by (induction cs arbitrary: db) simp_all

lemma store_ok_replace:
  assumes "store_ok db" "\<And>r. r \<in> set (table db) \<Longrightarrow> ID (f r) = ID r"
  shows "store_ok (db\<lparr>table := map f (table db)\<rparr>)"
proof -
  have eq: "map (\<lambda>r. ID (f r)) (table db) = map ID (table db)"
    using assms(2) by (intro map_cong) simp_all
  show ?thesis using assms(1)
    by (simp add: store_ok_def list_all_iff comp_def eq assms(2))
qed

lemma store_ok_Create:
  "store_ok db \<Longrightarrow> store_ok (snd (TransactionService_CreateTransaction req now db))"
  by (auto simp: TransactionService_CreateTransaction_def gorm_Create_def Let_def
      store_ok_def list_all_iff)

lemma store_ok_Update:
  assumes "store_ok db"
  shows "store_ok (snd (TransactionService_UpdateTransaction i req now db))"
proof (cases "gorm_First i db")
  case (Inl e)
  then show ?thesis using assms by (simp add: TransactionService_UpdateTransaction_def)
next
  case (Inr t)
  then have up: "conn_up db" by (auto simp: gorm_First_def split: if_splits)
  have "store_ok (db\<lparr>table := map (\<lambda>r. if ID r = ID t \<and> DeletedAt r = None
                                         then t\<lparr>Status := upd_Status req, UpdatedAt := now\<rparr>
                                         else r) (table db)\<rparr>)"
    using assms by (rule store_ok_replace) simp
  then show ?thesis using Inr up
    by (simp add: TransactionService_UpdateTransaction_def gorm_Save_def Let_def)
qed

lemma store_ok_Delete:
  assumes "store_ok db"
  shows "store_ok (snd (TransactionService_DeleteTransaction i now db))"
proof (cases "gorm_First i db")
  case (Inl e)
  then show ?thesis using assms by (simp add: TransactionService_DeleteTransaction_def)
next
  case (Inr t)
  then have up: "conn_up db" by (auto simp: gorm_First_def split: if_splits)
  have "store_ok (db\<lparr>table := map (\<lambda>r. if ID r = ID t \<and> DeletedAt r = None
                                         then r\<lparr>DeletedAt := Some now\<rparr> else r) (table db)\<rparr>)"
    using assms by (rule store_ok_replace) simp
  then show ?thesis using Inr up
    by (simp add: TransactionService_DeleteTransaction_def gorm_Delete_def)
qed

lemma store_ok_after_call: "store_ok db \<Longrightarrow> store_ok (after_call c db)"
  by (cases c) (simp_all add: store_ok_Create store_ok_Update store_ok_Delete)

lemma store_ok_after_calls: "store_ok db \<Longrightarrow> store_ok (after_calls cs db)"
  by (induction cs arbitrary: db) (simp_all add: store_ok_after_call)

text \<open>Every store that the service builds from the empty table is of this kind.\<close>

lemma store_ok_reachable:
  "store_ok (after_calls cs \<lparr>table = [], auto_increment = 1, conn_up = b\<rparr>)"
  by (rule store_ok_after_calls) (simp add: store_ok_def)

text \<open>No service call touches a row that carries a deletion marker.\<close>

lemma deleted_row_stays:
  assumes "t \<in> set (table db)" "DeletedAt t \<noteq> None"
  shows "t \<in> set (table (after_call c db))"
proof (cases c)
  case (CallCreate req now)
  then show ?thesis using assms(1)
    by (auto simp: TransactionService_CreateTransaction_def gorm_Create_def Let_def)
next
  case (CallUpdate i req now)
  show ?thesis
  proof (cases "gorm_First i db")
    case (Inl e)
    then show ?thesis using assms(1) CallUpdate
      by (simp add: TransactionService_UpdateTransaction_def)
  next
    case (Inr u)
    then have up: "conn_up db" by (auto simp: gorm_First_def split: if_splits)
    have "t \<in> (\<lambda>r. if ID r = ID u \<and> DeletedAt r = None
                   then u\<lparr>Status := upd_Status req, UpdatedAt := now\<rparr> else r) ` set (table db)"
      using assms by (intro image_eqI [of _ _ t]) auto
    then show ?thesis using Inr up CallUpdate
      by (simp add: TransactionService_UpdateTransaction_def gorm_Save_def Let_def)
  qed
next
  case (CallDelete i now)
  show ?thesis
  proof (cases "gorm_First i db")
    case (Inl e)
    then show ?thesis using assms(1) CallDelete
      by (simp add: TransactionService_DeleteTransaction_def)
  next
    case (Inr u)
    then have up: "conn_up db" by (auto simp: gorm_First_def split: if_splits)
    have "t \<in> (\<lambda>r. if ID r = ID u \<and> DeletedAt r = None
                   then r\<lparr>DeletedAt := Some now\<rparr> else r) ` set (table db)"
      using assms by (intro image_eqI [of _ _ t]) auto
    then show ?thesis using Inr up CallDelete
      by (simp add: TransactionService_DeleteTransaction_def gorm_Delete_def)
  qed
qed

lemma deleted_row_stays_calls:
  "t \<in> set (table db) \<Longrightarrow> DeletedAt t \<noteq> None \<Longrightarrow> t \<in> set (table (after_calls cs db))"
  by (induction cs arbitrary: db) (simp_all add: deleted_row_stays)

text \<open>With distinct keys, a row with a deletion marker hides its id from the default scope.\<close>

lemma deleted_row_hides:
  assumes "store_ok db" "t \<in> set (table db)" "ID t = i" "DeletedAt t \<noteq> None"
  shows "live_row db i = None"
  using assms
  by (auto simp: live_row_None_iff store_ok_def dest: distinct_map_eq [of ID "table db"])

lemma Unscoped_First_row:
  assumes "store_ok db" "conn_up db" "t \<in> set (table db)" "ID t = i"
  shows "gorm_Unscoped_First i db = Inr t"
proof -
  have "t \<in> set (filter (\<lambda>r. ID r = i) (table db))" using assms by simp
  then obtain u us where f: "filter (\<lambda>r. ID r = i) (table db) = u # us"
    by (cases "filter (\<lambda>r. ID r = i) (table db)") auto
  then have "u \<in> set (filter (\<lambda>r. ID r = i) (table db))" by simp
  then have "u \<in> set (table db)" "ID u = i" by simp_all
  with assms have "u = t"
    by (auto simp: store_ok_def dest: distinct_map_eq [of ID "table db"])
  with f assms(2) show ?thesis by (simp add: gorm_Unscoped_First_def)
qed

lemma DeleteTransaction_live:
  assumes ok: "store_ok db" and up: "conn_up db"
    and t: "t \<in> set (table db)" "ID t = i" "DeletedAt t = None"
  shows "TransactionService_DeleteTransaction i now db =
           (None, db\<lparr>table := map (\<lambda>r. if r = t then r\<lparr>DeletedAt := Some now\<rparr> else r)
                                   (table db)\<rparr>)"
proof -
  have lr: "live_row db i = Some t" using ok t by (rule live_row_unique)
  have first: "gorm_First i db = Inr t" using up lr by (simp add: gorm_First_live_row)
  have d: "distinct (map ID (table db))" using ok by (simp add: store_ok_def)
  from map_by_key [OF d t(1,3), of "\<lambda>r. r\<lparr>DeletedAt := Some now\<rparr>"]
  show ?thesis using up
    by (simp add: TransactionService_DeleteTransaction_def first gorm_Delete_def)
qed

text \<open>
  Claim C6. On a store that answers, whose keys are distinct: deleting the id of a live
  row succeeds and only sets that row's deletion marker. From then on, after any further
  sequence of create, update and delete calls, fetching, updating and deleting that id
  fail with \<open>transaction not found\<close>, while the query that includes deleted rows
  still returns the row, unchanged but for its marker. Deleting an id that no row carries,
  or whose row already carries a marker, fails with \<open>transaction not found\<close>.
\<close>

theorem DeleteTransaction_soft_delete:
  assumes "store_ok db" and "conn_up db"
  shows "((\<forall>t \<in> set (table db). ID t = i \<longrightarrow> DeletedAt t \<noteq> None) \<longrightarrow>
            TransactionService_DeleteTransaction i now db = (Some ''transaction not found'', db))
       \<and> (\<forall>t \<in> set (table db). ID t = i \<and> DeletedAt t = None \<longrightarrow>
            TransactionService_DeleteTransaction i now db =
              (None, db\<lparr>table := map (\<lambda>r. if r = t then r\<lparr>DeletedAt := Some now\<rparr> else r)
                                      (table db)\<rparr>)
          \<and> (\<forall>calls req now'.
                TransactionService_GetTransactionByID i
                    (after_calls calls (snd (TransactionService_DeleteTransaction i now db))) =
                  Inl ''transaction not found''
              \<and> TransactionService_UpdateTransaction i req now'
                    (after_calls calls (snd (TransactionService_DeleteTransaction i now db))) =
                  (Inl ''transaction not found'',
                   after_calls calls (snd (TransactionService_DeleteTransaction i now db)))
              \<and> TransactionService_DeleteTransaction i now'
                    (after_calls calls (snd (TransactionService_DeleteTransaction i now db))) =
                  (Some ''transaction not found'',
                   after_calls calls (snd (TransactionService_DeleteTransaction i now db)))
              \<and> gorm_Unscoped_First i
                    (after_calls calls (snd (TransactionService_DeleteTransaction i now db))) =
                  Inr (t\<lparr>DeletedAt := Some now\<rparr>)))"
proof (intro conjI ballI impI allI)
  assume "\<forall>t \<in> set (table db). ID t = i \<longrightarrow> DeletedAt t \<noteq> None"
  then have "live_row db i = None" by (simp add: live_row_None_iff)
  with assms(2) show "TransactionService_DeleteTransaction i now db =
      (Some ''transaction not found'', db)"
    by (rule not_found_when_no_live_row)
next
  fix t
  assume t: "t \<in> set (table db)" and "ID t = i \<and> DeletedAt t = None"
  then have t2: "ID t = i" "DeletedAt t = None" by simp_all
  let ?db1 = "snd (TransactionService_DeleteTransaction i now db)"
  let ?t1 = "t\<lparr>DeletedAt := Some now\<rparr>"
  show del: "TransactionService_DeleteTransaction i now db =
      (None, db\<lparr>table := map (\<lambda>r. if r = t then r\<lparr>DeletedAt := Some now\<rparr> else r)
                              (table db)\<rparr>)"
    using assms t t2 by (rule DeleteTransaction_live)
  have ok1: "store_ok ?db1" using assms(1) by (rule store_ok_Delete)
  have in1: "?t1 \<in> set (table ?db1)" using t by (auto simp: del intro: image_eqI [of _ _ t])
  fix calls req now'
  let ?db2 = "after_calls calls ?db1"
  have ok2: "store_ok ?db2" using ok1 by (rule store_ok_after_calls)
  have up2: "conn_up ?db2" using assms(2) by (simp add: del)
  have in2: "?t1 \<in> set (table ?db2)" using in1 by (rule deleted_row_stays_calls) simp
  have id1: "ID ?t1 = i" using t2 by simp
  have none: "live_row ?db2 i = None" using ok2 in2 id1 by (rule deleted_row_hides) simp
  show "TransactionService_GetTransactionByID i ?db2 = Inl ''transaction not found''"
    using up2 none by (rule not_found_when_no_live_row)
  show "TransactionService_UpdateTransaction i req now' ?db2 = (Inl ''transaction not found'', ?db2)"
    using up2 none by (rule not_found_when_no_live_row)
  show "TransactionService_DeleteTransaction i now' ?db2 = (Some ''transaction not found'', ?db2)"
    using up2 none by (rule not_found_when_no_live_row)
  show "gorm_Unscoped_First i ?db2 = Inr ?t1"
    using ok2 up2 in2 id1 by (rule Unscoped_First_row)
qed

text \<open>
  On the sample store: record 4 is deleted; after a create and an update of id 4 it is
  still not found by the default query, and still there, with its marker, for the query
  that includes deleted rows. The already deleted record 6 cannot be deleted again.
\<close>

theorem DeleteTransaction_soft_delete_witness:
  "store_ok sample_store \<and> conn_up sample_store
   \<and> fst (TransactionService_DeleteTransaction 4 sample_now sample_store) = None
   \<and> TransactionService_GetTransactionByID 4
        (after_calls [CallCreate \<lparr>req_UserID = 2, req_Amount = 400\<rparr> (54 * Hour),
                      CallUpdate 4 \<lparr>upd_Status = ''success''\<rparr> (55 * Hour)]
           (snd (TransactionService_DeleteTransaction 4 sample_now sample_store))) =
       Inl ''transaction not found''
   \<and> gorm_Unscoped_First 4
        (after_calls [CallCreate \<lparr>req_UserID = 2, req_Amount = 400\<rparr> (54 * Hour),
                      CallUpdate 4 \<lparr>upd_Status = ''success''\<rparr> (55 * Hour)]
           (snd (TransactionService_DeleteTransaction 4 sample_now sample_store))) =
       Inr \<lparr>ID = 4, UserID = 2, Amount = 400, Status = ''pending'',
            CreatedAt = 51 * Hour, UpdatedAt = 51 * Hour, DeletedAt = Some (53 * Hour)\<rparr>
   \<and> TransactionService_DeleteTransaction 6 sample_now sample_store =
       (Some ''transaction not found'', sample_store)"
proof -
  have ok: "store_ok sample_store" and up: "conn_up sample_store"
    by (simp_all add: sample_store_def store_ok_def)
  let ?t = "\<lparr>ID = 4, UserID = 2, Amount = 400, Status = ''pending'',
             CreatedAt = 51 * Hour, UpdatedAt = 51 * Hour, DeletedAt = None\<rparr>"
  let ?calls = "[CallCreate \<lparr>req_UserID = 2, req_Amount = 400\<rparr> (54 * Hour),
                 CallUpdate 4 \<lparr>upd_Status = ''success''\<rparr> (55 * Hour)]"
  note live = DeleteTransaction_soft_delete [OF ok up, of 4 sample_now, THEN conjunct2, THEN bspec, of ?t]
  note gone = DeleteTransaction_soft_delete [OF ok up, of 6 sample_now, THEN conjunct1]
  have t: "?t \<in> set (table sample_store)" "ID ?t = 4 \<and> DeletedAt ?t = None"
    by (simp_all add: sample_store_def)
  from live [OF t(1)] t(2)
  have d: "TransactionService_DeleteTransaction 4 sample_now sample_store =
            (None, sample_store\<lparr>table := map (\<lambda>r. if r = ?t then r\<lparr>DeletedAt := Some sample_now\<rparr> else r)
                                               (table sample_store)\<rparr>)"
    and after: "\<forall>calls req now'.
       TransactionService_GetTransactionByID 4
         (after_calls calls (snd (TransactionService_DeleteTransaction 4 sample_now sample_store))) =
         Inl ''transaction not found''
       \<and> TransactionService_UpdateTransaction 4 req now'
         (after_calls calls (snd (TransactionService_DeleteTransaction 4 sample_now sample_store))) =
         (Inl ''transaction not found'',
          after_calls calls (snd (TransactionService_DeleteTransaction 4 sample_now sample_store)))
       \<and> TransactionService_DeleteTransaction 4 now'
         (after_calls calls (snd (TransactionService_DeleteTransaction 4 sample_now sample_store))) =
         (Some ''transaction not found'',
          after_calls calls (snd (TransactionService_DeleteTransaction 4 sample_now sample_store)))
       \<and> gorm_Unscoped_First 4
         (after_calls calls (snd (TransactionService_DeleteTransaction 4 sample_now sample_store))) =
         Inr (?t\<lparr>DeletedAt := Some sample_now\<rparr>)"
    by blast+
  from after have a: "TransactionService_GetTransactionByID 4
         (after_calls ?calls (snd (TransactionService_DeleteTransaction 4 sample_now sample_store))) =
         Inl ''transaction not found''"
    and u: "gorm_Unscoped_First 4
         (after_calls ?calls (snd (TransactionService_DeleteTransaction 4 sample_now sample_store))) =
         Inr (?t\<lparr>DeletedAt := Some sample_now\<rparr>)"
    by blast+
  have g: "TransactionService_DeleteTransaction 6 sample_now sample_store =
       (Some ''transaction not found'', sample_store)"
    using gone by (simp add: sample_store_def)
  have f: "fst (TransactionService_DeleteTransaction 4 sample_now sample_store) = None"
    by (simp add: d)
  show ?thesis using ok up f a u g by (simp add: sample_now_def)
qed

section \<open>Listing transactions\<close>

lemma neg_div_ceiling:
  fixes k L :: int
  assumes "0 < L"
  shows "- ((- k) div L) = (k + L - 1) div L"
proof -
  define q r where "q = k div L" and "r = k mod L"
  have k: "k = r + q * L" and r: "0 \<le> r" "r < L"
    using assms by (simp_all add: q_def r_def)
  have L0: "L \<noteq> 0" using assms by simp
  show ?thesis
  proof (cases "r = 0")
    case True
    have "(k + L - 1) div L = ((L - 1) + q * L) div L"
      using k True by (simp add: algebra_simps)
    also have "\<dots> = q + (L - 1) div L" using L0 by (rule div_mult_self1)
    also have "(L - 1) div L = 0" using assms by (simp add: div_pos_pos_trivial)
    finally have a: "(k + L - 1) div L = q" by simp
    have "(- k) div L = - q"
      using True L0 by (simp add: zdiv_zminus1_eq_if q_def r_def)
    with a show ?thesis by simp
  next
    case False
    have "(k + L - 1) div L = ((r - 1) + (q + 1) * L) div L"
      using k by (simp add: algebra_simps)
    also have "\<dots> = (q + 1) + (r - 1) div L" using L0 by (rule div_mult_self1)
    also have "(r - 1) div L = 0" using r False by (simp add: div_pos_pos_trivial)
    finally have a: "(k + L - 1) div L = q + 1" by simp
    have "(- k) div L = - q - 1"
      using False L0 by (simp add: zdiv_zminus1_eq_if q_def r_def)
    with a show ?thesis by simp
  qed
qed

lemma ceiling_divide_int:
  fixes L :: int
  assumes "0 < L"
  shows "\<lceil>(of_nat n :: rat) / of_int L\<rceil> = (int n + L - 1) div L"
proof -
  have "\<lceil>(of_nat n :: rat) / of_int L\<rceil> = - \<lfloor>(of_int (- int n) :: rat) / of_int L\<rfloor>"
    by (simp add: ceiling_def)
  also have "\<dots> = - ((- int n) div L)" by (simp only: floor_divide_of_int_eq)
  also have "\<dots> = (int n + L - 1) div L" using assms by (rule neg_div_ceiling)
  finally show ?thesis .
qed

lemma sint_no_overflow:
  fixes page limit :: "64 word"
  assumes "0 < sint page" "0 < sint limit" "(sint page - 1) * sint limit < 2 ^ 63"
  shows "sint ((page - 1) * limit) = (sint page - 1) * sint limit"
proof -
  have lt: "sint page < 2 ^ 63" using sint_lt [of page] by simp
  have p1: "sint (page - 1) = sint page - 1"
    using assms(1) lt by (simp add: sint_word_ariths signed_take_bit_int_eq_self)
  have nonneg: "0 \<le> (sint page - 1) * sint limit" using assms(1,2) by simp
  have "sint ((page - 1) * limit) = signed_take_bit 63 (sint (page - 1) * sint limit)"
    by (simp only: sint_word_mult) simp
  also have "\<dots> = signed_take_bit 63 ((sint page - 1) * sint limit)"
    by (simp only: p1)
  also have "\<dots> = (sint page - 1) * sint limit"
    using nonneg assms(3) by (intro signed_take_bit_int_eq_self) simp_all
  finally show ?thesis .
qed

lemma scope_query:
  "scope ((if q_UserID query \<noteq> 0 then [UserIdEq (q_UserID query)] else []) @
          (if q_Status query \<noteq> [] then [StatusEq (q_Status query)] else [])) db =
   filter (matching query) (table db)"
  by (auto simp: scope_def matching_def intro: filter_cong)

lemma order_created_at_desc_sorted:
  "sorted_wrt (\<lambda>a b. CreatedAt b \<le> CreatedAt a) (order_created_at_desc ts)"
proof -
  have "sorted (map (\<lambda>t. - CreatedAt t) (sort_key (\<lambda>t. - CreatedAt t) ts))"
    by (rule sorted_sort_key)
  then show ?thesis by (simp add: order_created_at_desc_def sorted_map)
qed

lemma order_created_at_desc_mset: "mset (order_created_at_desc ts) = mset ts"
  by (simp add: order_created_at_desc_def)

text \<open>
  Claim C2. On a store that answers, the list query succeeds. The limit is the one asked
  for, or 10 when that is absent (zero) or not positive; the page likewise, or 1. The
  total is the number of rows that match the filters, whatever the page and the limit.
  The data are a window of the matching rows put in descending order of \<open>created_at\<close>
  (some arrangement of exactly those rows that is so ordered; which one, among rows of
  equal \<open>created_at\<close>, is the engine's choice): the first \<open>offset = (page - 1) * limit\<close>
  of them are skipped and at most \<open>limit\<close> of them kept. The product is Go's, on 64-bit
  integers, and is the mathematical one whenever that fits. The number of pages is the
  ceiling of total over limit, and 0 when the total is 0.
\<close>

theorem GetTransactions_pagination:
  assumes "conn_up db"
  shows "\<exists>r ordered. TransactionService_GetTransactions query db = Inr r
     \<and> Limit r = (if sint (q_Limit query) \<le> 0 then 10 else q_Limit query)
     \<and> Page r = (if sint (q_Page query) \<le> 0 then 1 else q_Page query)
     \<and> 0 < sint (Limit r) \<and> 0 < sint (Page r)
     \<and> Total r = length (filter (matching query) (table db))
     \<and> mset ordered = mset (filter (matching query) (table db))
     \<and> sorted_wrt (\<lambda>a b. CreatedAt b \<le> CreatedAt a) ordered
     \<and> Data r = take (nat (sint (Limit r)))
                   (drop (nat (sint ((Page r - 1) * Limit r))) ordered)
     \<and> ((sint (Page r) - 1) * sint (Limit r) < 2 ^ 63 \<longrightarrow>
          sint ((Page r - 1) * Limit r) = (sint (Page r) - 1) * sint (Limit r))
     \<and> length (Data r) \<le> nat (sint (Limit r))
     \<and> sorted_wrt (\<lambda>a b. CreatedAt b \<le> CreatedAt a) (Data r)
     \<and> TotalPages r = \<lceil>(of_nat (Total r) :: rat) / of_int (sint (Limit r))\<rceil>
     \<and> TotalPages r = (int (Total r) + sint (Limit r) - 1) div sint (Limit r)
     \<and> (Total r = 0 \<longrightarrow> TotalPages r = 0)"
proof -
  define limit where "limit = (if sint (q_Limit query) \<le> 0 then 10 else q_Limit query)"
  define page where "page = (if sint (q_Page query) \<le> 0 then 1 else q_Page query)"
  define rows where "rows = filter (matching query) (table db)"
  define ordered where "ordered = order_created_at_desc rows"
  define r where "r = \<lparr>Data = take (nat (sint limit))
                              (drop (nat (sint ((page - 1) * limit))) ordered),
                        Total = length rows, Page = page, Limit = limit,
                        TotalPages = \<lceil>(of_nat (length rows) :: rat) / of_int (sint limit)\<rceil>\<rparr>"
  have lpos: "0 < sint limit" by (simp add: limit_def)
  have ppos: "0 < sint page" by (simp add: page_def)
  have find: "gorm_Find cs (sint ((page - 1) * limit)) (sint limit) db =
        Inr (take (nat (sint limit))
               (drop (nat (sint ((page - 1) * limit))) (order_created_at_desc (scope cs db))))"
    for cs
    using assms lpos by (simp add: gorm_Find_def Let_def)
  define cs where "cs = (if q_UserID query \<noteq> 0 then [UserIdEq (q_UserID query)] else []) @
                        (if q_Status query \<noteq> [] then [StatusEq (q_Status query)] else [])"
  have sc: "scope cs db = rows" by (simp only: cs_def rows_def scope_query)
  have cnt: "gorm_Count cs db = Inr (length rows)"
    using assms by (simp add: gorm_Count_def sc)
  have res: "TransactionService_GetTransactions query db = Inr r"
    unfolding TransactionService_GetTransactions_def Let_def
      cs_def [symmetric] limit_def [symmetric] page_def [symmetric]
    by (simp add: cnt find sc r_def ordered_def)
  have sel: "Data r = take (nat (sint limit))
                        (drop (nat (sint ((page - 1) * limit))) ordered)"
    "Total r = length rows" "Page r = page" "Limit r = limit"
    "TotalPages r = \<lceil>(of_nat (length rows) :: rat) / of_int (sint limit)\<rceil>"
    by (simp_all add: r_def)
  have f1: "Limit r = (if sint (q_Limit query) \<le> 0 then 10 else q_Limit query)"
    by (simp add: sel limit_def)
  have f2: "Page r = (if sint (q_Page query) \<le> 0 then 1 else q_Page query)"
    by (simp add: sel page_def)
  have f3: "0 < sint (Limit r)" "0 < sint (Page r)"
    by (simp_all add: sel lpos ppos)
  have f4: "Total r = length (filter (matching query) (table db))"
    by (simp add: sel rows_def)
  have o1: "mset ordered = mset (filter (matching query) (table db))"
    by (simp add: ordered_def rows_def order_created_at_desc_mset)
  have o2: "sorted_wrt (\<lambda>a b. CreatedAt b \<le> CreatedAt a) ordered"
    unfolding ordered_def by (rule order_created_at_desc_sorted)
  have f5: "Data r = take (nat (sint (Limit r)))
                   (drop (nat (sint ((Page r - 1) * Limit r))) ordered)"
    by (simp add: sel)
  have f6: "(sint (Page r) - 1) * sint (Limit r) < 2 ^ 63 \<longrightarrow>
          sint ((Page r - 1) * Limit r) = (sint (Page r) - 1) * sint (Limit r)"
    using f3 by (auto intro: sint_no_overflow)
  have f7: "length (Data r) \<le> nat (sint (Limit r))"
    by (simp add: sel)
  have f8: "sorted_wrt (\<lambda>a b. CreatedAt b \<le> CreatedAt a) (Data r)"
    unfolding sel by (intro sorted_wrt_take sorted_wrt_drop o2)
  have f9: "TotalPages r = \<lceil>(of_nat (Total r) :: rat) / of_int (sint (Limit r))\<rceil>"
    by (simp add: sel)
  have f10: "TotalPages r = (int (Total r) + sint (Limit r) - 1) div sint (Limit r)"
    unfolding f9 using f3(1) by (rule ceiling_divide_int)
  have f11: "Total r = 0 \<longrightarrow> TotalPages r = 0"
    by (simp add: sel)
  show ?thesis
    by (intro exI [of _ r] exI [of _ ordered] conjI)
       (rule res f1 f2 f3 f4 o1 o2 f5 f6 f7 f8 f9 f10 f11)+
qed

text \<open>
  On the sample store, where no two live records share a \<open>created_at\<close>: page 2 of size
  2 holds the third and fourth most recent of the five live records, in 3 pages; with
  limit 0 and page -3 the defaults 10 and 1 apply, and the three live successes fit one
  page; no record of user 7 gives 0 pages. On the store with three records of one
  instant, the first page of size 3 holds those three, in 2 pages.
\<close>

theorem GetTransactions_pagination_witness:
  "conn_up sample_store
   \<and> (\<exists>r. TransactionService_GetTransactions
            \<lparr>q_UserID = 0, q_Status = [], q_Limit = 2, q_Offset = 0, q_Page = 2\<rparr> sample_store = Inr r
        \<and> map ID (Data r) = [2, 1] \<and> Total r = 5 \<and> TotalPages r = 3
        \<and> Page r = 2 \<and> Limit r = 2 \<and> sint ((Page r - 1) * Limit r) = 2)
   \<and> (\<exists>r. TransactionService_GetTransactions
            \<lparr>q_UserID = 0, q_Status = ''success'', q_Limit = 0, q_Offset = 0, q_Page = - 3\<rparr>
            sample_store = Inr r
        \<and> map ID (Data r) = [2, 1, 3] \<and> Total r = 3 \<and> TotalPages r = 1
        \<and> Page r = 1 \<and> Limit r = 10)
   \<and> (\<exists>r. TransactionService_GetTransactions
            \<lparr>q_UserID = 7, q_Status = [], q_Limit = 5, q_Offset = 0, q_Page = 1\<rparr>
            sample_store = Inr r
        \<and> Data r = [] \<and> Total r = 0 \<and> TotalPages r = 0)
   \<and> conn_up tie_store
   \<and> (\<exists>r. TransactionService_GetTransactions
            \<lparr>q_UserID = 0, q_Status = [], q_Limit = 3, q_Offset = 0, q_Page = 1\<rparr>
            tie_store = Inr r
        \<and> set (map ID (Data r)) = {1, 2, 3} \<and> Total r = 4 \<and> TotalPages r = 2)"
proof -
  have up: "conn_up sample_store" by (simp add: sample_store_def)
  have upt: "conn_up tie_store" by (simp add: tie_store_def)
  let ?q1 = "\<lparr>q_UserID = 0, q_Status = [], q_Limit = 2, q_Offset = 0, q_Page = 2\<rparr>"
  let ?q2 = "\<lparr>q_UserID = 0, q_Status = ''success'', q_Limit = 0, q_Offset = 0, q_Page = - 3\<rparr>"
  let ?q3 = "\<lparr>q_UserID = 7, q_Status = [], q_Limit = 5, q_Offset = 0, q_Page = 1\<rparr>"
  let ?q4 = "\<lparr>q_UserID = 0, q_Status = [], q_Limit = 3, q_Offset = 0, q_Page = 1\<rparr>"
  note eval = TransactionService_GetTransactions_def gorm_Count_def gorm_Find_def Let_def
    scope_def order_created_at_desc_def Hour_def
  from GetTransactions_pagination [OF up, of ?q1] obtain r1 ord1 where
    r1: "TransactionService_GetTransactions ?q1 sample_store = Inr r1"
    and l1: "Limit r1 = (if sint (q_Limit ?q1) \<le> 0 then 10 else q_Limit ?q1)"
    and p1: "Page r1 = (if sint (q_Page ?q1) \<le> 0 then 1 else q_Page ?q1)"
    and t1: "Total r1 = length (filter (matching ?q1) (table sample_store))"
    and o1: "(sint (Page r1) - 1) * sint (Limit r1) < 2 ^ 63 \<longrightarrow>
          sint ((Page r1 - 1) * Limit r1) = (sint (Page r1) - 1) * sint (Limit r1)"
    and n1: "TotalPages r1 = (int (Total r1) + sint (Limit r1) - 1) div sint (Limit r1)"
    by (elim exE conjE)
  have l1': "Limit r1 = 2" and p1': "Page r1 = 2" using l1 p1 by simp_all
  have o1': "sint ((Page r1 - 1) * Limit r1) = 2" using o1 by (simp add: l1' p1')
  have t1': "Total r1 = 5" using t1 by (simp add: sample_store_def matching_def)
  have n1': "TotalPages r1 = 3" using n1 by (simp add: l1' t1')
  have d1': "map ID (Data r1) = [2, 1]"
    using r1 by (auto simp: eval sample_store_def)
  from GetTransactions_pagination [OF up, of ?q2] obtain r2 ord2 where
    r2: "TransactionService_GetTransactions ?q2 sample_store = Inr r2"
    and l2: "Limit r2 = (if sint (q_Limit ?q2) \<le> 0 then 10 else q_Limit ?q2)"
    and p2: "Page r2 = (if sint (q_Page ?q2) \<le> 0 then 1 else q_Page ?q2)"
    and t2: "Total r2 = length (filter (matching ?q2) (table sample_store))"
    and n2: "TotalPages r2 = (int (Total r2) + sint (Limit r2) - 1) div sint (Limit r2)"
    by (elim exE conjE)
  have l2': "Limit r2 = 10" and p2': "Page r2 = 1" using l2 p2 by simp_all
  have t2': "Total r2 = 3" using t2 by (simp add: sample_store_def matching_def)
  have n2': "TotalPages r2 = 1" using n2 by (simp add: l2' t2')
  have d2': "map ID (Data r2) = [2, 1, 3]"
    using r2 by (auto simp: eval sample_store_def)
  from GetTransactions_pagination [OF up, of ?q3] obtain r3 ord3 where
    r3: "TransactionService_GetTransactions ?q3 sample_store = Inr r3"
    and t3: "Total r3 = length (filter (matching ?q3) (table sample_store))"
    and m3: "mset ord3 = mset (filter (matching ?q3) (table sample_store))"
    and d3: "Data r3 = take (nat (sint (Limit r3)))
                   (drop (nat (sint ((Page r3 - 1) * Limit r3))) ord3)"
    and z3: "Total r3 = 0 \<longrightarrow> TotalPages r3 = 0"
    by (elim exE conjE)
  have t3': "Total r3 = 0" using t3 by (simp add: sample_store_def matching_def)
  have n3': "TotalPages r3 = 0" using z3 t3' by simp
  have "ord3 = []" using m3 by (simp add: sample_store_def matching_def)
  then have d3': "Data r3 = []" using d3 by simp
  from GetTransactions_pagination [OF upt, of ?q4] obtain r4 ord4 where
    r4: "TransactionService_GetTransactions ?q4 tie_store = Inr r4"
    and l4: "Limit r4 = (if sint (q_Limit ?q4) \<le> 0 then 10 else q_Limit ?q4)"
    and t4: "Total r4 = length (filter (matching ?q4) (table tie_store))"
    and n4: "TotalPages r4 = (int (Total r4) + sint (Limit r4) - 1) div sint (Limit r4)"
    by (elim exE conjE)
  have l4': "Limit r4 = 3" using l4 by simp
  have t4': "Total r4 = 4" using t4 by (simp add: tie_store_def matching_def)
  have n4': "TotalPages r4 = 2" using n4 by (simp add: l4' t4')
  have d4': "set (map ID (Data r4)) = {1, 2, 3}"
    using r4 by (auto simp: eval tie_store_def)
  show ?thesis
    using up r1 d1' t1' n1' p1' l1' o1' r2 d2' t2' n2' p2' l2' r3 d3' t3' n3'
      upt r4 d4' t4' n4'
    by simp
qed

text \<open>The model's own choice among the three: the order of the table.\<close>

lemma tie_store_first_page:
  "map_sum id (map ID \<circ> Data)
     (TransactionService_GetTransactions
        \<lparr>q_UserID = 0, q_Status = [], q_Limit = 0, q_Offset = 0, q_Page = 0\<rparr> tie_store) =
   Inr [1, 2, 3, 4]"
  by (simp add: TransactionService_GetTransactions_def gorm_Count_def gorm_Find_def Let_def
      scope_def order_created_at_desc_def Hour_def tie_store_def)

section \<open>Arithmetic on float64\<close>

lemma floor_rat_numeral: "\<lfloor>numeral a / numeral b :: rat\<rfloor> = numeral a div numeral b"
  by (metis floor_divide_of_int_eq of_int_numeral)

lemma ceiling_rat_numeral: "\<lceil>numeral a / numeral b :: rat\<rceil> = - (- numeral a div numeral b)"
  by (metis ceiling_def divide_minus_left floor_divide_of_int_eq of_int_neg_numeral of_int_numeral)

lemmas float64_eval = round64_def round_half_even_def ilog2_def Let_def
  compute_floorlog floor_rat_numeral ceiling_rat_numeral

text \<open>
  The rounding at some known values: the \<open>float64\<close> nearest to one tenth; 100.50, which
  is a \<open>float64\<close>; the two odd integers above \<open>2^53\<close>, which are ties and go to the
  even significand; and the sum of the values nearest to 0.1 and 0.2, which is the value
  printed as 0.30000000000000004.
\<close>

lemma round64_tenth: "round64 (1 / 10) = Finite (3602879701896397 / 36028797018963968)"
  by (simp add: float64_eval)

lemma round64_exact_half: "round64 (201 / 2) = Finite (201 / 2)"
  by (simp add: float64_eval)

lemma round64_ties_to_even:
  "round64 9007199254740993 = Finite 9007199254740992"
  "round64 9007199254740995 = Finite 9007199254740996"
  by (simp_all add: float64_eval)

lemma round64_tenth_plus_fifth:
  "round64 (3602879701896397 / 36028797018963968 + 3602879701896397 / 18014398509481984)
     = Finite (1351079888211149 / 4503599627370496)"
  by (simp add: float64_eval)

text \<open>A whole number below \<open>2^53\<close> is a \<open>float64\<close>: rounding leaves it as it is.\<close>

lemma round_half_even_of_int [simp]: "round_half_even (of_int k) = k"
  by (simp add: round_half_even_def)

lemma ilog2_of_nat: "0 < n \<Longrightarrow> ilog2 (of_nat n) = int (floorlog 2 n) - 1"
  by (simp add: ilog2_def)

lemma round64_of_nat:
  assumes "n < 2 ^ 53"
  shows "round64 (of_nat n) = Finite (of_nat n)"
proof (cases "n = 0")
  case True
  then show ?thesis by (simp add: round64_def)
next
  case False
  define b where "b = floorlog 2 n"
  have "floorlog 2 n \<noteq> 0" using False by (simp add: floorlog_eq_zero_iff)
  then have b1: "1 \<le> b" by (simp add: b_def)
  have b53: "b \<le> 53" unfolding b_def using assms by (intro floorlog_leI) simp_all
  define m where "m = 53 - b"
  have e: "ilog2 (of_nat n) = int b - 1" using False by (simp add: ilog2_of_nat b_def)
  have ulp: "(2::rat) powi (int b - 53) = inverse (2 ^ m)"
  proof -
    have "int b - 53 = - int m" using b53 by (simp add: m_def)
    then show ?thesis by (simp add: power_int_minus)
  qed
  have q: "(of_nat n :: rat) / inverse (2 ^ m) = of_int (int (n * 2 ^ m))"
    by (simp add: divide_inverse)
  have rnd: "round_half_even ((of_nat n :: rat) / 2 powi (int b - 53)) = int (n * 2 ^ m)"
    unfolding ulp q by (rule round_half_even_of_int)
  have scaled: "(of_int (int (n * 2 ^ m)) :: rat) * inverse (2 ^ m) = of_nat n"
    by simp
  have mx: "max (- 1022) (int b - 1) = int b - 1" using b1 by simp
  have "round64 (of_nat n) =
          Finite (of_int (round_half_even ((of_nat n :: rat) / 2 powi (int b - 53))) *
                  2 powi (int b - 53))"
    unfolding round64_def Let_def using False b1 b53 by (simp add: e mx)
  also have "\<dots> = Finite (of_nat n)"
    unfolding rnd by (simp only: ulp scaled)
  finally show ?thesis .
qed

text \<open>
  Adding up whole numbers whose total is below \<open>2^53\<close> never rounds: every partial
  sum is a \<open>float64\<close>.
\<close>

lemma Nats_sum_list_nonneg: "\<forall>x \<in> set xs. x \<in> \<nat> \<Longrightarrow> 0 \<le> sum_list (xs :: rat list)"
  by (induction xs) (auto elim!: Nats_cases)

lemma foldl_float64_add_whole:
  fixes xs :: "rat list"
  assumes "\<forall>x \<in> set xs. x \<in> \<nat>" "of_nat a + sum_list xs < 2 ^ 53"
  shows "foldl float64_add (Finite (of_nat a)) (map round64 xs) = Finite (of_nat a + sum_list xs)"
  using assms
proof (induction xs arbitrary: a)
  case Nil
  then show ?case by simp
next
  case (Cons x xs)
  from Cons.prems(1) obtain k where k: "x = of_nat k" by (auto elim: Nats_cases)
  have rest: "0 \<le> sum_list xs" using Cons.prems(1) by (intro Nats_sum_list_nonneg) simp
  have "(of_nat (a + k) :: rat) \<le> of_nat a + sum_list (x # xs)" using rest k by simp
  also have "\<dots> < 2 ^ 53" by (rule Cons.prems(2))
  finally have "(of_nat (a + k) :: rat) < of_nat (2 ^ 53)" by simp
  then have ak: "a + k < 2 ^ 53" by (simp only: of_nat_less_iff)
  then have kk: "k < 2 ^ 53" by simp
  have rx: "round64 x = Finite (of_nat k)" unfolding k using kk by (rule round64_of_nat)
  have add: "float64_add (Finite (of_nat a)) (Finite (of_nat k)) = Finite (of_nat (a + k))"
    using round64_of_nat [OF ak] by simp
  have IH: "foldl float64_add (Finite (of_nat (a + k))) (map round64 xs) =
          Finite (of_nat (a + k) + sum_list xs)"
    using Cons.prems by (intro Cons.IH) (simp_all add: k add.assoc)
  have "foldl float64_add (Finite (of_nat a)) (map round64 (x # xs)) =
          foldl float64_add (float64_add (Finite (of_nat a)) (round64 x)) (map round64 xs)"
    by simp
  also have "\<dots> = foldl float64_add (Finite (of_nat (a + k))) (map round64 xs)"
    by (simp only: rx add)
  also have "\<dots> = Finite (of_nat (a + k) + sum_list xs)" by (rule IH)
  also have "\<dots> = Finite (of_nat a + sum_list (x # xs))" by (simp add: k)
  finally show ?case .
qed

lemma float64_sum_whole:
  fixes xs :: "rat list"
  assumes "\<forall>x \<in> set xs. x \<in> \<nat>" "sum_list xs < 2 ^ 53"
  shows "float64_sum xs = Finite (sum_list xs)"
  using foldl_float64_add_whole [of xs 0] assms by (simp add: float64_sum_def)

lemma float64_sum_Nil [simp]: "float64_sum [] = Finite 0"
  by (simp add: float64_sum_def)

lemma scan_SUM: "scan_float64 (sql_SUM xs) = float64_sum xs"
  by (cases xs) simp_all

lemma scan_AVG:
  "xs \<noteq> [] \<Longrightarrow> scan_float64 (sql_AVG xs) = float64_div_count (float64_sum xs) (length xs)"
  by (cases xs) simp_all

text \<open>Powers of two, up to the largest, are \<open>float64\<close> values; \<open>2^1024\<close> is not.\<close>

lemma ilog2_power2: "ilog2 (2 ^ k) = int k"
proof -
  have "\<lfloor>(2::rat) ^ k\<rfloor> = 2 ^ k"
    by (metis floor_of_int of_int_numeral of_int_power)
  then have n: "nat \<lfloor>(2::rat) ^ k\<rfloor> = 1 * 2 ^ k" by (simp add: nat_power_eq)
  have "floorlog 2 (1 * 2 ^ k) = floorlog 2 1 + k" by (rule floorlog_power) simp_all
  moreover have "floorlog 2 1 = 1" by (simp add: compute_floorlog)
  ultimately have "floorlog 2 (nat \<lfloor>(2::rat) ^ k\<rfloor>) = 1 + k" by (simp only: n)
  then show ?thesis by (simp add: ilog2_def)
qed

lemma round64_power2:
  assumes "k \<le> 1023"
  shows "round64 (2 ^ k) = Finite (2 ^ k)"
proof -
  have q: "(2::rat) ^ k / 2 powi (int k - 52) = of_int (2 ^ 52)"
  proof -
    have "(2::rat) ^ k = 2 powi (int k - 52 + 52)" by simp
    also have "\<dots> = 2 powi (int k - 52) * 2 powi 52" by (rule power_int_add) simp
    finally have "(2::rat) ^ k = 2 powi (int k - 52) * 2 ^ 52" by simp
    moreover have "(2::rat) powi (int k - 52) \<noteq> 0" by simp
    ultimately show ?thesis by (simp add: field_simps)
  qed
  have r: "round_half_even ((2::rat) ^ k / 2 powi (int k - 52)) = 2 ^ 52"
    unfolding q by (rule round_half_even_of_int)
  have bk: "(of_int (2 ^ 52) :: rat) * 2 powi (int k - 52) = 2 ^ k"
    using q by (simp add: field_simps)
  have "round64 (2 ^ k) = Finite (of_int (2 ^ 52) * 2 powi (int k - 52))"
    unfolding round64_def Let_def using assms by (simp add: ilog2_power2 r)
  then show ?thesis by (simp only: bk)
qed

lemma round64_power2_overflow:
  assumes "1024 \<le> k"
  shows "round64 (2 ^ k) = PosInf"
  unfolding round64_def Let_def using assms by (simp add: ilog2_power2)

lemma double_power2: "(2::rat) ^ n + 2 ^ n = 2 ^ Suc n"
  by simp

lemma round64_huge_amount: "round64 huge_amount = Finite huge_amount"
  unfolding huge_amount_def by (rule round64_power2) simp

lemma round64_huge_amount_twice: "round64 (huge_amount + huge_amount) = PosInf"
  unfolding huge_amount_def double_power2 by (rule round64_power2_overflow) simp

section \<open>The dashboard summary\<close>

lemma Truncate_midnight: "Truncate now (24 * Hour) = midnight_UTC now"
proof -
  have "now - now mod (24 * Hour) = now div (24 * Hour) * (24 * Hour)"
    by (simp add: minus_mod_eq_div_mult)
  then show ?thesis by (simp add: Truncate_def midnight_UTC_def Hour_def)
qed

lemma midnight_UTC_day:
  "(24 * Hour) dvd midnight_UTC now" "midnight_UTC now \<le> now" "now < midnight_UTC now + 24 * Hour"
proof -
  have pos: "0 < 24 * Hour" by (simp add: Hour_def)
  show "(24 * Hour) dvd midnight_UTC now" by (simp add: midnight_UTC_def)
  have eq: "midnight_UTC now = now - now mod (24 * Hour)"
    by (simp add: midnight_UTC_def minus_mod_eq_div_mult)
  show "midnight_UTC now \<le> now" using pos by (simp add: eq)
  have "now mod (24 * Hour) < 24 * Hour" using pos by (rule pos_mod_bound)
  then show "now < midnight_UTC now + 24 * Hour" by (simp add: eq)
qed

lemma scope_success: "scope [StatusEq StatusSuccess] db = filter successful (table db)"
  by (auto simp: scope_def successful_def StatusSuccess_def intro: filter_cong)

lemma scope_success_today:
  "scope [StatusEq StatusSuccess, CreatedAtGe (midnight_UTC now),
          CreatedAtLt (midnight_UTC now + 24 * Hour)] db =
   filter (\<lambda>t. successful t \<and> created_today now t) (table db)"
  by (auto simp: scope_def successful_def created_today_def StatusSuccess_def intro: filter_cong)

lemma sum_list_filter_le:
  fixes f :: "'a \<Rightarrow> rat"
  assumes "\<forall>t \<in> set xs. P t \<longrightarrow> 0 \<le> f t"
  shows "sum_list (map f (filter (\<lambda>t. P t \<and> Q t) xs)) \<le> sum_list (map f (filter P xs))"
  using assms by (induction xs) (auto intro: add_increasing)

text \<open>On a store that answers, all seven queries of the dashboard succeed.\<close>

lemma GetDashboardSummary_answers:
  assumes "conn_up db"
  shows "TransactionService_GetDashboardSummary now db =
    Inr \<lparr>TotalSuccessToday =
           length (filter (\<lambda>t. successful t \<and> created_today now t) (table db)),
         AverageAmountPerUser =
           scan_float64 (sql_AVG (map Amount (filter successful (table db)))),
         TotalTransactions = length (scope [] db),
         RecentTransactions = take 10 (order_created_at_desc (scope [] db)),
         TotalAmount = float64_sum (map Amount (filter successful (table db))),
         TotalAmountToday =
           float64_sum (map Amount (filter (\<lambda>t. successful t \<and> created_today now t) (table db))),
         StatusDistribution =
           fill_distribution Map.empty
             (map (\<lambda>s. (s, length (filter (\<lambda>t. Status t = s) (scope [] db))))
                  (remdups (map Status (scope [] db))))\<rparr>"
  using assms
  by (simp add: TransactionService_GetDashboardSummary_def Let_def Truncate_midnight
      gorm_Count_def gorm_Scan_AVG_amount_def gorm_Scan_SUM_amount_def
      gorm_Scan_status_count_def gorm_Find_def scope_success scope_success_today scan_SUM)

text \<open>
  Claim C3, as amended. On a store that answers, the dashboard succeeds; its
  \<open>total_amount\<close> is the store's \<open>float64\<close> sum of the amounts of the live records
  with status \<open>success\<close>, and its \<open>total_amount_today\<close> the \<open>float64\<close> sum over those
  of them created in today's UTC window. Where the amounts are whole numbers whose total
  is below \<open>2^53\<close>, no addition rounds and both fields are the exact sums. When no
  record matches, the SQL sum is NULL and the field is 0; the dashboard does not fail.
\<close>

theorem GetDashboardSummary_totals:
  assumes "conn_up db"
  shows "\<exists>s. TransactionService_GetDashboardSummary now db = Inr s
     \<and> TotalAmount s = float64_sum (map Amount (filter successful (table db)))
     \<and> TotalAmountToday s =
         float64_sum (map Amount (filter (\<lambda>t. successful t \<and> created_today now t) (table db)))
     \<and> ((\<forall>t \<in> set (table db). successful t \<longrightarrow> Amount t \<in> \<nat>)
          \<and> sum_list (map Amount (filter successful (table db))) < 2 ^ 53 \<longrightarrow>
          TotalAmount s = Finite (sum_list (map Amount (filter successful (table db))))
          \<and> TotalAmountToday s =
              Finite (sum_list (map Amount
                        (filter (\<lambda>t. successful t \<and> created_today now t) (table db)))))
     \<and> (filter successful (table db) = [] \<longrightarrow> TotalAmount s = Finite 0)
     \<and> (filter (\<lambda>t. successful t \<and> created_today now t) (table db) = [] \<longrightarrow>
          TotalAmountToday s = Finite 0)"
proof -
  let ?all = "filter successful (table db)"
  let ?today = "filter (\<lambda>t. successful t \<and> created_today now t) (table db)"
  have exact: "float64_sum (map Amount ?all) = Finite (sum_list (map Amount ?all))
             \<and> float64_sum (map Amount ?today) = Finite (sum_list (map Amount ?today))"
    if whole: "\<forall>t \<in> set (table db). successful t \<longrightarrow> Amount t \<in> \<nat>"
      and small: "sum_list (map Amount ?all) < 2 ^ 53"
  proof
    show "float64_sum (map Amount ?all) = Finite (sum_list (map Amount ?all))"
      using whole small by (intro float64_sum_whole) auto
    have "\<forall>t \<in> set (table db). successful t \<longrightarrow> 0 \<le> Amount t"
      using whole by (auto elim!: Nats_cases)
    then have "sum_list (map Amount ?today) \<le> sum_list (map Amount ?all)"
      by (rule sum_list_filter_le)
    with small have "sum_list (map Amount ?today) < 2 ^ 53" by simp
    then show "float64_sum (map Amount ?today) = Finite (sum_list (map Amount ?today))"
      using whole by (intro float64_sum_whole) auto
  qed
  show ?thesis
    using GetDashboardSummary_answers [OF assms, of now] exact by auto
qed

text \<open>
  Claim C7, as amended. On a store that answers and holds at least one live record with
  status \<open>success\<close>, \<open>average_amount_per_user\<close> is the store's \<open>float64\<close> average
  over those records, not grouped by user: their \<open>float64\<close> sum divided by their number,
  rounded. Where the amounts are whole numbers whose total is below \<open>2^53\<close>, it is the
  arithmetic mean rounded once, and the arithmetic mean itself when that is a whole number.
\<close>

theorem average_amount_is_mean:
  assumes "conn_up db" and "filter successful (table db) \<noteq> []"
  shows "\<exists>s. TransactionService_GetDashboardSummary now db = Inr s
     \<and> AverageAmountPerUser s =
         float64_div_count (float64_sum (map Amount (filter successful (table db))))
           (length (filter successful (table db)))
     \<and> ((\<forall>t \<in> set (table db). successful t \<longrightarrow> Amount t \<in> \<nat>)
          \<and> sum_list (map Amount (filter successful (table db))) < 2 ^ 53 \<longrightarrow>
          AverageAmountPerUser s =
            round64 (sum_list (map Amount (filter successful (table db))) /
                     of_nat (length (filter successful (table db)))))
     \<and> ((\<forall>t \<in> set (table db). successful t \<longrightarrow> Amount t \<in> \<nat>)
          \<and> sum_list (map Amount (filter successful (table db))) < 2 ^ 53
          \<and> sum_list (map Amount (filter successful (table db))) /
              of_nat (length (filter successful (table db))) \<in> \<nat> \<longrightarrow>
          AverageAmountPerUser s =
            Finite (sum_list (map Amount (filter successful (table db))) /
                    of_nat (length (filter successful (table db)))))"
proof -
  let ?all = "filter successful (table db)"
  let ?sum = "sum_list (map Amount ?all)"
  let ?n = "length ?all"
  have npos: "0 < ?n" using assms(2) by simp
  have avg: "scan_float64 (sql_AVG (map Amount ?all)) =
               float64_div_count (float64_sum (map Amount ?all)) ?n"
    using assms(2) scan_AVG [of "map Amount ?all"] by simp
  have rounded: "float64_div_count (float64_sum (map Amount ?all)) ?n = round64 (?sum / of_nat ?n)"
    if whole: "\<forall>t \<in> set (table db). successful t \<longrightarrow> Amount t \<in> \<nat>"
      and small: "?sum < 2 ^ 53"
  proof -
    have "float64_sum (map Amount ?all) = Finite ?sum"
      using whole small by (intro float64_sum_whole) auto
    then show ?thesis by simp
  qed
  have exact: "round64 (?sum / of_nat ?n) = Finite (?sum / of_nat ?n)"
    if whole: "\<forall>t \<in> set (table db). successful t \<longrightarrow> Amount t \<in> \<nat>"
      and small: "?sum < 2 ^ 53" and mean: "?sum / of_nat ?n \<in> \<nat>"
  proof -
    from mean obtain k where k: "?sum / of_nat ?n = of_nat k" by (auto elim: Nats_cases)
    have nonneg: "0 \<le> ?sum" using whole by (intro Nats_sum_list_nonneg) auto
    have n1: "1 \<le> ?n" using assms(2) by (cases "?all") simp_all
    have ge1: "(1::rat) \<le> of_nat ?n" by (metis n1 of_nat_1 of_nat_le_iff)
    have "?sum * 1 \<le> ?sum * of_nat ?n" using ge1 nonneg by (rule mult_left_mono)
    moreover have "(0::rat) < of_nat ?n" using ge1 by (rule less_le_trans [OF zero_less_one])
    ultimately have "?sum / of_nat ?n \<le> ?sum" by (simp add: divide_le_eq)
    with small have "(of_nat k :: rat) < of_nat (2 ^ 53)" by (simp add: k)
    then have "k < 2 ^ 53" by (simp only: of_nat_less_iff)
    then show ?thesis unfolding k by (rule round64_of_nat)
  qed
  show ?thesis
    using GetDashboardSummary_answers [OF assms(1), of now] avg rounded exact by auto
qed

text \<open>
  Claim C8. On a store that answers, \<open>total_success_today\<close> is the number of live
  records with status \<open>success\<close> whose \<open>created_at\<close> is at or after the UTC midnight
  before \<open>now\<close> and strictly before that midnight plus 24 hours; that midnight is the
  multiple of 24 hours with \<open>midnight <= now < midnight + 24h\<close>.
\<close>

theorem total_success_today_window:
  assumes "conn_up db"
  shows "\<exists>s. TransactionService_GetDashboardSummary now db = Inr s
     \<and> TotalSuccessToday s =
         length (filter (\<lambda>t. DeletedAt t = None \<and> Status t = ''success''
                             \<and> midnight_UTC now \<le> CreatedAt t
                             \<and> CreatedAt t < midnight_UTC now + 24 * Hour) (table db))
     \<and> (24 * Hour) dvd midnight_UTC now
     \<and> midnight_UTC now \<le> now
     \<and> now < midnight_UTC now + 24 * Hour"
  using GetDashboardSummary_answers [OF assms, of now] midnight_UTC_day [of now]
  by (simp add: successful_def created_today_def)

text \<open>
  Claim C3, as stated, fails where an addition rounds: for two successes whose amounts
  are the \<open>float64\<close> values nearest to 0.1 and 0.2, \<open>total_amount\<close> is the value
  printed as 0.30000000000000004, which is not the sum of the two amounts.
\<close>

theorem total_amount_rounds_counterexample:
  "map_sum id TotalAmount (TransactionService_GetDashboardSummary sample_now rounding_store) =
     Inr (Finite (1351079888211149 / 4503599627370496))
   \<and> sum_list (map Amount (filter successful (table rounding_store))) =
     10808639105689191 / 36028797018963968
   \<and> Finite (1351079888211149 / 4503599627370496) \<noteq>
     Finite (10808639105689191 / 36028797018963968)"
proof -
  have up: "conn_up rounding_store" by (simp add: rounding_store_def)
  have rows: "map Amount (filter successful (table rounding_store)) =
     [3602879701896397 / 36028797018963968, 3602879701896397 / 18014398509481984]"
    by (simp add: rounding_store_def successful_def)
  have sum: "float64_sum [3602879701896397 / 36028797018963968,
                          3602879701896397 / 18014398509481984] =
             Finite (1351079888211149 / 4503599627370496)"
    by (simp add: float64_sum_def float64_eval)
  show ?thesis
    unfolding GetDashboardSummary_answers [OF up] rows sum by simp
qed

text \<open>
  Claim C7, as stated, fails where the sum overflows: for two successes of \<open>2^1023\<close>
  each, the arithmetic mean is \<open>2^1023\<close>, a \<open>float64\<close>, and
  \<open>average_amount_per_user\<close> is positive infinity.
\<close>

theorem average_overflows_counterexample:
  "map_sum id AverageAmountPerUser
     (TransactionService_GetDashboardSummary sample_now overflow_store) = Inr PosInf
   \<and> sum_list (map Amount (filter successful (table overflow_store))) /
       of_nat (length (filter successful (table overflow_store))) = huge_amount
   \<and> round64 huge_amount = Finite huge_amount"
proof -
  have up: "conn_up overflow_store" by (simp add: overflow_store_def)
  have rows: "map Amount (filter successful (table overflow_store)) = [huge_amount, huge_amount]"
    by (simp add: overflow_store_def successful_def)
  have len: "length (filter successful (table overflow_store)) = 2"
    by (simp add: overflow_store_def successful_def)
  have first: "float64_add (Finite 0) (Finite huge_amount) = Finite huge_amount"
    by (simp add: round64_huge_amount)
  have second: "float64_add (Finite huge_amount) (Finite huge_amount) = PosInf"
    by (simp only: float64_add.simps round64_huge_amount_twice)
  have sum: "float64_sum [huge_amount, huge_amount] = PosInf"
    by (simp only: float64_sum_def list.map foldl.simps round64_huge_amount first second)
  show ?thesis
    unfolding GetDashboardSummary_answers [OF up] rows
    by (simp add: sum len round64_huge_amount)
qed

lemma midnight_sample: "midnight_UTC sample_now = 48 * Hour"
  by (simp add: midnight_UTC_def sample_now_def Hour_def)

text \<open>
  On the sample store two live successes fall in today's window. At the edges, the
  success created at midnight and the one created a nanosecond before the next midnight
  count, the one created at the next midnight does not.
\<close>

theorem total_success_today_window_witness:
  "conn_up sample_store
   \<and> (\<exists>s. TransactionService_GetDashboardSummary sample_now sample_store = Inr s
        \<and> TotalSuccessToday s = 2)
   \<and> conn_up boundary_store
   \<and> (\<exists>s. TransactionService_GetDashboardSummary sample_now boundary_store = Inr s
        \<and> TotalSuccessToday s = 2)
   \<and> midnight_UTC sample_now = 48 * Hour"
proof -
  have up: "conn_up sample_store" by (simp add: sample_store_def)
  have upb: "conn_up boundary_store" by (simp add: boundary_store_def)
  from total_success_today_window [OF up, of sample_now] obtain s where
    s: "TransactionService_GetDashboardSummary sample_now sample_store = Inr s"
    and a: "TotalSuccessToday s =
         length (filter (\<lambda>t. DeletedAt t = None \<and> Status t = ''success''
                             \<and> midnight_UTC sample_now \<le> CreatedAt t
                             \<and> CreatedAt t < midnight_UTC sample_now + 24 * Hour)
                   (table sample_store))"
    by (elim exE conjE)
  have a': "TotalSuccessToday s = 2"
    using a by (simp add: sample_store_def midnight_sample Hour_def)
  from total_success_today_window [OF upb, of sample_now] obtain sb where
    sb: "TransactionService_GetDashboardSummary sample_now boundary_store = Inr sb"
    and b: "TotalSuccessToday sb =
         length (filter (\<lambda>t. DeletedAt t = None \<and> Status t = ''success''
                             \<and> midnight_UTC sample_now \<le> CreatedAt t
                             \<and> CreatedAt t < midnight_UTC sample_now + 24 * Hour)
                   (table boundary_store))"
    by (elim exE conjE)
  have b': "TotalSuccessToday sb = 2"
    using b by (simp add: boundary_store_def midnight_sample Hour_def)
  show ?thesis using up upb s a' sb b' midnight_sample by simp
qed

text \<open>
  On the sample store, whose amounts are whole, the successes sum to 600 and those of
  today to 300 (the deleted success of 700 counts in neither); on the empty store both
  sums are 0.
\<close>

theorem GetDashboardSummary_totals_witness:
  "conn_up sample_store
   \<and> list_all (\<lambda>x. x \<in> \<nat>) (map Amount (filter successful (table sample_store)))
   \<and> sum_list (map Amount (filter successful (table sample_store))) < 2 ^ 53
   \<and> (\<exists>s. TransactionService_GetDashboardSummary sample_now sample_store = Inr s
        \<and> TotalAmount s = Finite 600 \<and> TotalAmountToday s = Finite 300)
   \<and> filter successful (table \<lparr>table = [], auto_increment = 1, conn_up = True\<rparr>) = []
   \<and> (\<exists>s. TransactionService_GetDashboardSummary sample_now
              \<lparr>table = [], auto_increment = 1, conn_up = True\<rparr> = Inr s
        \<and> TotalAmount s = Finite 0 \<and> TotalAmountToday s = Finite 0)"
proof -
  have up: "conn_up sample_store" by (simp add: sample_store_def)
  have up0: "conn_up \<lparr>table = [], auto_increment = 1, conn_up = True\<rparr>" by simp
  have whole: "\<forall>t \<in> set (table sample_store). successful t \<longrightarrow> Amount t \<in> \<nat>"
    by (simp add: sample_store_def successful_def)
  have small: "sum_list (map Amount (filter successful (table sample_store))) < 2 ^ 53"
    by (simp add: sample_store_def successful_def)
  from GetDashboardSummary_totals [OF up, of sample_now] obtain s where
    s: "TransactionService_GetDashboardSummary sample_now sample_store = Inr s"
    and ex: "(\<forall>t \<in> set (table sample_store). successful t \<longrightarrow> Amount t \<in> \<nat>)
          \<and> sum_list (map Amount (filter successful (table sample_store))) < 2 ^ 53 \<longrightarrow>
          TotalAmount s = Finite (sum_list (map Amount (filter successful (table sample_store))))
          \<and> TotalAmountToday s =
              Finite (sum_list (map Amount
                        (filter (\<lambda>t. successful t \<and> created_today sample_now t)
                           (table sample_store))))"
    by (elim exE conjE)
  from ex whole small have
    a: "TotalAmount s = Finite (sum_list (map Amount (filter successful (table sample_store))))"
    and b: "TotalAmountToday s =
              Finite (sum_list (map Amount
                        (filter (\<lambda>t. successful t \<and> created_today sample_now t)
                           (table sample_store))))"
    by blast+
  have a': "TotalAmount s = Finite 600" using a by (simp add: sample_store_def successful_def)
  have b': "TotalAmountToday s = Finite 300"
    using b by (simp add: sample_store_def successful_def created_today_def midnight_sample Hour_def)
  from GetDashboardSummary_totals [OF up0, of sample_now] obtain s0 where
    s0: "TransactionService_GetDashboardSummary sample_now
           \<lparr>table = [], auto_increment = 1, conn_up = True\<rparr> = Inr s0"
    and a0: "filter successful (table \<lparr>table = [], auto_increment = 1, conn_up = True\<rparr>) = [] \<longrightarrow>
               TotalAmount s0 = Finite 0"
    and b0: "filter (\<lambda>t. successful t \<and> created_today sample_now t)
               (table \<lparr>table = [], auto_increment = 1, conn_up = True\<rparr>) = [] \<longrightarrow>
               TotalAmountToday s0 = Finite 0"
    by (elim exE conjE)
  have a0': "TotalAmount s0 = Finite 0" and b0': "TotalAmountToday s0 = Finite 0"
    using a0 b0 by simp_all
  have whole': "list_all (\<lambda>x. x \<in> \<nat>) (map Amount (filter successful (table sample_store)))"
    by (simp add: sample_store_def successful_def)
  show ?thesis using up whole' small s a' b' s0 a0' b0' by simp
qed

text \<open>
  On the sample store the live successes are 100 and 200 of user 1 and 300 of user 2:
  the average is 200, the mean of the three transactions (the mean of the two users'
  means would be 225).
\<close>

theorem average_amount_is_mean_witness:
  "conn_up sample_store \<and> filter successful (table sample_store) \<noteq> []
   \<and> list_all (\<lambda>x. x \<in> \<nat>) (map Amount (filter successful (table sample_store)))
   \<and> sum_list (map Amount (filter successful (table sample_store))) < 2 ^ 53
   \<and> sum_list (map Amount (filter successful (table sample_store))) /
       of_nat (length (filter successful (table sample_store))) = 200
   \<and> (\<exists>s. TransactionService_GetDashboardSummary sample_now sample_store = Inr s
        \<and> AverageAmountPerUser s = Finite 200)"
proof -
  have up: "conn_up sample_store" by (simp add: sample_store_def)
  have ne: "filter successful (table sample_store) \<noteq> []"
    by (simp add: sample_store_def successful_def)
  have whole: "\<forall>t \<in> set (table sample_store). successful t \<longrightarrow> Amount t \<in> \<nat>"
    by (simp add: sample_store_def successful_def)
  have small: "sum_list (map Amount (filter successful (table sample_store))) < 2 ^ 53"
    by (simp add: sample_store_def successful_def)
  have mean: "sum_list (map Amount (filter successful (table sample_store))) /
       of_nat (length (filter successful (table sample_store))) = 200"
    by (simp add: sample_store_def successful_def)
  have mean_whole: "sum_list (map Amount (filter successful (table sample_store))) /
       of_nat (length (filter successful (table sample_store))) \<in> \<nat>"
    unfolding mean by simp
  from average_amount_is_mean [OF up ne, of sample_now] obtain s where
    s: "TransactionService_GetDashboardSummary sample_now sample_store = Inr s"
    and ex: "(\<forall>t \<in> set (table sample_store). successful t \<longrightarrow> Amount t \<in> \<nat>)
          \<and> sum_list (map Amount (filter successful (table sample_store))) < 2 ^ 53
          \<and> sum_list (map Amount (filter successful (table sample_store))) /
              of_nat (length (filter successful (table sample_store))) \<in> \<nat> \<longrightarrow>
          AverageAmountPerUser s =
            Finite (sum_list (map Amount (filter successful (table sample_store))) /
                    of_nat (length (filter successful (table sample_store))))"
    by (elim exE conjE)
  from ex whole small mean_whole have "AverageAmountPerUser s =
            Finite (sum_list (map Amount (filter successful (table sample_store))) /
                    of_nat (length (filter successful (table sample_store))))"
    by blast
  then have "AverageAmountPerUser s = Finite 200" by (simp only: mean)
  moreover have "list_all (\<lambda>x. x \<in> \<nat>) (map Amount (filter successful (table sample_store)))"
    by (simp add: sample_store_def successful_def)
  ultimately show ?thesis using up ne small mean s by blast
qed

text \<open>
  The example of the specification, which is the service's dashboard test, on the sample
  store (with its deleted sixth record, which no field counts).
\<close>

lemma dashboard_example:
  "\<exists>s. TransactionService_GetDashboardSummary sample_now sample_store = Inr s
     \<and> TotalTransactions s = 5 \<and> TotalSuccessToday s = 2
     \<and> TotalAmount s = Finite 600 \<and> TotalAmountToday s = Finite 300
     \<and> AverageAmountPerUser s = Finite 200
     \<and> StatusDistribution s ''success'' = Some 3
     \<and> StatusDistribution s ''pending'' = Some 1
     \<and> StatusDistribution s ''failed'' = Some 1
     \<and> map ID (RecentTransactions s) = [5, 4, 2, 1, 3]"
proof -
  have up: "conn_up sample_store" by (simp add: sample_store_def)
  have live: "scope [] sample_store = butlast (table sample_store)"
    by (simp add: scope_def sample_store_def)
  have sums: "float64_sum [100, 200, 300] = Finite 600" "float64_sum [100, 200] = Finite 300"
    by (simp_all add: float64_sum_whole)
  have r: "round64 200 = Finite 200" using round64_of_nat [of 200] by simp
  show ?thesis
    unfolding GetDashboardSummary_answers [OF up] live
    by (simp add: sample_store_def successful_def created_today_def midnight_sample
        order_created_at_desc_def Hour_def sums r)
qed

end
